theory Spec2Isabelle
  imports Complex_Main "HOL-Library.Multiset"
begin

section \<open>Strings\<close>

text \<open>
  A JavaScript string is a sequence of UTF-16 code units; a code unit is modelled as a
  natural number. \<open>str\<close> turns an ASCII literal of the source into such a sequence.
\<close>

type_synonym jstring = "nat list"

definition str :: "string \<Rightarrow> jstring" where
  "str s = map of_char s"

text \<open>
  The code units that \<open>String.prototype.trim\<close> strips and that \<open>\s\<close> matches in a regular
  expression: the WhiteSpace and LineTerminator productions of ECMAScript (TAB, LF, VT, FF,
  CR, SP, NBSP, U+1680, U+2000..U+200A, U+2028, U+2029, U+202F, U+205F, U+3000, U+FEFF).
\<close>

definition isWhiteSpace :: "nat \<Rightarrow> bool" where
  "isWhiteSpace c \<longleftrightarrow>
     c = 9 \<or> c = 10 \<or> c = 11 \<or> c = 12 \<or> c = 13 \<or> c = 32 \<or> c = 160 \<or> c = 5760 \<or>
     (8192 \<le> c \<and> c \<le> 8202) \<or> c = 8232 \<or> c = 8233 \<or> c = 8239 \<or> c = 8287 \<or>
     c = 12288 \<or> c = 65279"

definition trim :: "jstring \<Rightarrow> jstring" where
  "trim s = rev (dropWhile isWhiteSpace (rev (dropWhile isWhiteSpace s)))"

section \<open>The data model\<close>

text \<open>
  \<open>interface User\<close> and \<open>interface TodoItem\<close>. Numbers are modelled as mathematical
  integers (the doubles of the source are exact on them up to \<open>2^53\<close>). A \<open>Date\<close> is its time
  value in milliseconds since the epoch, or \<open>InvalidDate\<close> when the time value is NaN.
\<close>

record user =
  user_id :: int
  name :: jstring
  email :: jstring
  isActive :: bool

datatype priority = Low | Medium | High

datatype date = Date int | InvalidDate

record todo =
  todo_id :: int
  title :: jstring
  completed :: bool
  priority :: priority
  createdAt :: date

datatype todoFilter = FilterAll | FilterActive | FilterCompleted

text \<open>
  The values that exist at run time where the source has the type \<open>any\<close>: what \<open>JSON.parse\<close>
  returns, \<open>undefined\<close> (the value of a missing property) and \<open>Date\<close> objects. An object is
  the list of its own properties in the order in which JavaScript enumerates them. Numbers
  are exact rationals: the rounding of doubles is not modelled.
\<close>

datatype jsval =
    JUndefined
  | JNull
  | JBool bool
  | JNum rat
  | JStr jstring
  | JDate date
  | JArr "jsval list"
  | JObj "(jstring \<times> jsval) list"

datatype error = SyntaxError | TypeError

text \<open>
  What the component takes from the host and what ECMAScript leaves to the implementation or
  the locale: \<open>newDate v\<close> is \<open>new Date(v)\<close> (for a string it is \<open>Date.parse\<close>, whose
  accepted formats beyond ISO 8601 are implementation-defined), \<open>toISOString\<close> is
  \<open>Date.prototype.toISOString\<close> on a valid time value, \<open>numberToString\<close> prints a number
  that is not an integer below \<open>10^21\<close>, and \<open>localeCompare\<close> is
  \<open>String.prototype.localeCompare\<close>. The operations that use them take the platform as a
  parameter, and the theorems hold for every platform.
\<close>

record platform =
  newDate :: "jsval \<Rightarrow> date"
  toISOString :: "int \<Rightarrow> jstring"
  numberToString :: "rat \<Rightarrow> jstring"
  localeCompare :: "jstring \<Rightarrow> jstring \<Rightarrow> int"

record stats =
  totalUsers :: nat
  activeUsers :: nat
  totalTodos :: nat
  completedTodos :: nat
  highPriorityTodos :: nat

text \<open>
  The fields of \<open>DemoComponent\<close>. The record is polymorphic in the type of the entries of
  \<open>users\<close> and \<open>todos\<close> and in the type of \<open>theme\<close>: the declarations of the source give
  \<open>User\<close>, \<open>TodoItem\<close> and a string (type \<open>state\<close> below), while \<open>importData\<close> assigns
  whatever \<open>JSON.parse\<close> returned, so that it is modelled on the instance whose entries are
  arbitrary values.

  \<open>selectedUser\<close> is a reference to a user object in the source. The model keeps a copy of the
  record as it was when it was selected; the only field of the selection that the component
  reads is its \<open>id\<close> (in \<open>deleteUser\<close>), and no operation changes the \<open>id\<close> of an object.
  \<open>storedTheme\<close> is the entry of \<open>localStorage\<close> under the key \<open>demo-theme\<close>, the only key the
  component uses (\<open>None\<close> when \<open>getItem\<close> returns \<open>null\<close>). The constant fields \<open>title\<close> and
  \<open>description\<close> and the subject \<open>destroy$\<close> are left out.
\<close>

record ('u, 't, 'h) component =
  users :: "'u list"
  selectedUser :: "'u option"
  userSearchTerm :: jstring
  showUserForm :: bool
  todos :: "'t list"
  newTodoTitle :: jstring
  selectedPriority :: priority
  todoFilter :: todoFilter
  isLoading :: bool
  errorMessage :: jstring
  currentTime :: int
  counter :: int
  theme :: 'h
  statistics :: stats
  storedTheme :: "jstring option"

type_synonym state = "(user, todo, jstring) component"

text \<open>The field initialisers of the class; \<open>now\<close> is the time of construction.\<close>

definition initial :: "int \<Rightarrow> state" where
  "initial now =
     \<lparr> users = [], selectedUser = None, userSearchTerm = [], showUserForm = False,
       todos = [], newTodoTitle = [], selectedPriority = Medium, todoFilter = FilterAll,
       isLoading = False, errorMessage = [], currentTime = now, counter = 0,
       theme = str ''light'',
       statistics = \<lparr> totalUsers = 0, activeUsers = 0, totalTodos = 0, completedTodos = 0,
                      highPriorityTodos = 0 \<rparr>,
       storedTheme = None \<rparr>"

section \<open>Utility methods\<close>

text \<open>
  \<open>isValidEmail\<close> tests \<open>/^[^\s@]+@[^\s@]+\.[^\s@]+$/\<close>. The class \<open>[^\s@]\<close> is \<open>emailChar\<close>.
  Since the class excludes \<open>@\<close>, a match has exactly one \<open>@\<close>: the longest prefix of class
  characters is the local part, an \<open>@\<close> follows, and the rest consists of class characters
  with a dot that is neither its first nor its last character. \<open>isValidEmail_iff\<close> below
  proves that this is the language of the expression.
\<close>

definition emailChar :: "nat \<Rightarrow> bool" where
  "emailChar c \<longleftrightarrow> \<not> isWhiteSpace c \<and> c \<noteq> 64"

definition isValidEmail :: "jstring \<Rightarrow> bool" where
  "isValidEmail e =
     (takeWhile emailChar e \<noteq> [] \<and>
      (case dropWhile emailChar e of
         [] \<Rightarrow> False
       | c # domain \<Rightarrow> c = 64 \<and> list_all emailChar domain \<and> 46 \<in> set (butlast (tl domain))))"

definition getNextUserId :: "state \<Rightarrow> int" where
  "getNextUserId s =
     (if length (users s) > 0 then Max (set (map user_id (users s))) + 1 else 1)"

definition getNextTodoId :: "state \<Rightarrow> int" where
  "getNextTodoId s =
     (if length (todos s) > 0 then Max (set (map todo_id (todos s))) + 1 else 1)"

definition updateStatistics :: "state \<Rightarrow> state" where
  "updateStatistics s =
     s\<lparr> statistics :=
          \<lparr> totalUsers = length (users s),
            activeUsers = length (filter isActive (users s)),
            totalTodos = length (todos s),
            completedTodos = length (filter completed (todos s)),
            highPriorityTodos = length (filter (\<lambda>t. priority t = High) (todos s)) \<rparr> \<rparr>"

section \<open>Array methods of the platform\<close>

text \<open>
  \<open>findIndex\<close> gives the index of the first element that satisfies the predicate, or \<open>-1\<close>;
  \<open>splice(i, 1)\<close> removes the element at index \<open>i\<close>. \<open>updateFirst p f\<close> is the effect of
  mutating the object that \<open>find(p)\<close> returns: the first element that satisfies \<open>p\<close> is
  replaced by its image under \<open>f\<close>.
\<close>

definition findIndex :: "('a \<Rightarrow> bool) \<Rightarrow> 'a list \<Rightarrow> int" where
  "findIndex p xs =
     (if list_ex p xs then int (length (takeWhile (\<lambda>x. \<not> p x) xs)) else - 1)"

definition splice1 :: "nat \<Rightarrow> 'a list \<Rightarrow> 'a list" where
  "splice1 i xs = take i xs @ drop (Suc i) xs"

fun updateFirst :: "('a \<Rightarrow> bool) \<Rightarrow> ('a \<Rightarrow> 'a) \<Rightarrow> 'a list \<Rightarrow> 'a list" where
  "updateFirst p f [] = []"
| "updateFirst p f (x # xs) = (if p x then f x # xs else x # updateFirst p f xs)"

text \<open>
  \<open>Array.prototype.sort\<close> with a comparison function. Since ECMAScript 2019 the sort is
  stable, and for a consistent comparison function its result is determined: \<open>a\<close> comes
  before \<open>b\<close> when \<open>cmp a b < 0\<close>, and elements that compare equal keep their order. The model
  is the insertion sort that has this result.
\<close>

fun insertSorted :: "('a \<Rightarrow> 'a \<Rightarrow> int) \<Rightarrow> 'a \<Rightarrow> 'a list \<Rightarrow> 'a list" where
  "insertSorted cmp x [] = [x]"
| "insertSorted cmp x (y # ys) =
     (if cmp x y \<le> 0 then x # y # ys else y # insertSorted cmp x ys)"

definition arraySort :: "('a \<Rightarrow> 'a \<Rightarrow> int) \<Rightarrow> 'a list \<Rightarrow> 'a list" where
  "arraySort cmp xs = foldr (insertSorted cmp) xs []"

section \<open>User management\<close>

definition addUser :: "jstring \<Rightarrow> jstring \<Rightarrow> state \<Rightarrow> state" where
  "addUser nm em s =
     (if trim nm = [] \<or> trim em = [] then
        s\<lparr> errorMessage := str ''Name and email are required'' \<rparr>
      else if \<not> isValidEmail em then
        s\<lparr> errorMessage := str ''Please enter a valid email address'' \<rparr>
      else
        let newUser = \<lparr> user_id = getNextUserId s, name = trim nm, email = trim em,
                        isActive = True \<rparr>
        in (updateStatistics (s\<lparr> users := users s @ [newUser] \<rparr>))
             \<lparr> errorMessage := [], showUserForm := False \<rparr>)"

definition deleteUser :: "int \<Rightarrow> state \<Rightarrow> state" where
  "deleteUser userId s =
     (let userIndex = findIndex (\<lambda>u. user_id u = userId) (users s) in
      if userIndex > - 1 then
        let s1 = s\<lparr> users := splice1 (nat userIndex) (users s) \<rparr>;
            s2 = (case selectedUser s1 of
                    Some sel \<Rightarrow> if user_id sel = userId then s1\<lparr> selectedUser := None \<rparr> else s1
                  | None \<Rightarrow> s1)
        in updateStatistics s2
      else s)"

definition toggleUserStatus :: "int \<Rightarrow> state \<Rightarrow> state" where
  "toggleUserStatus userId s =
     (case find (\<lambda>u. user_id u = userId) (users s) of
        Some u \<Rightarrow>
          updateStatistics
            (s\<lparr> users := updateFirst (\<lambda>u. user_id u = userId)
                            (\<lambda>u. u\<lparr> isActive := \<not> isActive u \<rparr>) (users s) \<rparr>)
      | None \<Rightarrow> s)"

definition selectUser :: "user \<Rightarrow> state \<Rightarrow> state" where
  "selectUser u s = s\<lparr> selectedUser := Some u \<rparr>"

section \<open>Todo management\<close>

text \<open>\<open>now\<close> is the value of \<open>new Date()\<close> at the time of the call.\<close>

definition addTodo :: "int \<Rightarrow> state \<Rightarrow> state" where
  "addTodo now s =
     (if trim (newTodoTitle s) = [] then
        s\<lparr> errorMessage := str ''Todo title is required'' \<rparr>
      else
        let newTodo = \<lparr> todo_id = getNextTodoId s, title = trim (newTodoTitle s),
                        completed = False, priority = selectedPriority s,
                        createdAt = Date now \<rparr>
        in (updateStatistics (s\<lparr> todos := todos s @ [newTodo], newTodoTitle := [] \<rparr>))
             \<lparr> errorMessage := [] \<rparr>)"

definition toggleTodo :: "int \<Rightarrow> state \<Rightarrow> state" where
  "toggleTodo todoId s =
     (case find (\<lambda>t. todo_id t = todoId) (todos s) of
        Some t \<Rightarrow>
          updateStatistics
            (s\<lparr> todos := updateFirst (\<lambda>t. todo_id t = todoId)
                            (\<lambda>t. t\<lparr> completed := \<not> completed t \<rparr>) (todos s) \<rparr>)
      | None \<Rightarrow> s)"

definition deleteTodo :: "int \<Rightarrow> state \<Rightarrow> state" where
  "deleteTodo todoId s =
     (let todoIndex = findIndex (\<lambda>t. todo_id t = todoId) (todos s) in
      if todoIndex > - 1 then
        updateStatistics (s\<lparr> todos := splice1 (nat todoIndex) (todos s) \<rparr>)
      else s)"

definition updateTodoPriority :: "int \<Rightarrow> priority \<Rightarrow> state \<Rightarrow> state" where
  "updateTodoPriority todoId p s =
     (case find (\<lambda>t. todo_id t = todoId) (todos s) of
        Some t \<Rightarrow>
          updateStatistics
            (s\<lparr> todos := updateFirst (\<lambda>t. todo_id t = todoId)
                            (\<lambda>t. t\<lparr> priority := p \<rparr>) (todos s) \<rparr>)
      | None \<Rightarrow> s)"

definition clearCompletedTodos :: "state \<Rightarrow> state" where
  "clearCompletedTodos s =
     updateStatistics (s\<lparr> todos := filter (\<lambda>t. \<not> completed t) (todos s) \<rparr>)"

section \<open>Theme management\<close>

definition saveTheme :: "state \<Rightarrow> state" where
  "saveTheme s = s\<lparr> storedTheme := Some (theme s) \<rparr>"

definition toggleTheme :: "state \<Rightarrow> state" where
  "toggleTheme s =
     saveTheme (s\<lparr> theme := (if theme s = str ''light'' then str ''dark'' else str ''light'') \<rparr>)"

definition loadTheme :: "state \<Rightarrow> state" where
  "loadTheme s =
     (case storedTheme s of
        Some savedTheme \<Rightarrow>
          if savedTheme = str ''dark'' \<or> savedTheme = str ''light''
          then s\<lparr> theme := savedTheme \<rparr> else s
      | None \<Rightarrow> s)"

section \<open>Seed data and lifecycle\<close>

text \<open>
  \<open>new Date('2024-01-01')\<close> is midnight UTC of that day, \<open>1704067200000\<close> milliseconds after
  the epoch; the following days add \<open>86400000\<close> each.
\<close>

definition loadInitialUsers :: "state \<Rightarrow> state" where
  "loadInitialUsers s =
     updateStatistics
       (s\<lparr> users :=
            [ \<lparr> user_id = 1, name = str ''John Doe'', email = str ''john@example.com'',
                isActive = True \<rparr>,
              \<lparr> user_id = 2, name = str ''Jane Smith'', email = str ''jane@example.com'',
                isActive = False \<rparr>,
              \<lparr> user_id = 3, name = str ''Bob Johnson'', email = str ''bob@example.com'',
                isActive = True \<rparr>,
              \<lparr> user_id = 4, name = str ''Alice Brown'', email = str ''alice@example.com'',
                isActive = True \<rparr>,
              \<lparr> user_id = 5, name = str ''Charlie Wilson'',
                email = str ''charlie@example.com'', isActive = False \<rparr> ] \<rparr>)"

definition loadInitialTodos :: "state \<Rightarrow> state" where
  "loadInitialTodos s =
     updateStatistics
       (s\<lparr> todos :=
            [ \<lparr> todo_id = 1, title = str ''Complete project setup'', completed = True,
                priority = High, createdAt = Date 1704067200000 \<rparr>,
              \<lparr> todo_id = 2, title = str ''Write unit tests'', completed = False,
                priority = High, createdAt = Date 1704153600000 \<rparr>,
              \<lparr> todo_id = 3, title = str ''Update documentation'', completed = False,
                priority = Medium, createdAt = Date 1704240000000 \<rparr>,
              \<lparr> todo_id = 4, title = str ''Code review'', completed = False,
                priority = Low, createdAt = Date 1704326400000 \<rparr>,
              \<lparr> todo_id = 5, title = str ''Deploy to staging'', completed = True,
                priority = Medium, createdAt = Date 1704412800000 \<rparr> ] \<rparr>)"

definition initializeData :: "state \<Rightarrow> state" where
  "initializeData s = updateStatistics (loadTheme s)"

text \<open>
  \<open>startTimer\<close> subscribes to the interval; each of its ticks is the step \<open>tick\<close>. The
  subscription itself changes no field.
\<close>

definition tick :: "int \<Rightarrow> state \<Rightarrow> state" where
  "tick now s = s\<lparr> currentTime := now, counter := counter s + 1 \<rparr>"

definition ngOnInit :: "state \<Rightarrow> state" where
  "ngOnInit s = loadInitialTodos (loadInitialUsers (initializeData s))"

section \<open>Bulk operations, sorting, reset\<close>

definition markAllTodosComplete :: "state \<Rightarrow> state" where
  "markAllTodosComplete s =
     updateStatistics (s\<lparr> todos := map (\<lambda>t. t\<lparr> completed := True \<rparr>) (todos s) \<rparr>)"

definition markAllTodosIncomplete :: "state \<Rightarrow> state" where
  "markAllTodosIncomplete s =
     updateStatistics (s\<lparr> todos := map (\<lambda>t. t\<lparr> completed := False \<rparr>) (todos s) \<rparr>)"

definition activateAllUsers :: "state \<Rightarrow> state" where
  "activateAllUsers s =
     updateStatistics (s\<lparr> users := map (\<lambda>u. u\<lparr> isActive := True \<rparr>) (users s) \<rparr>)"

definition deactivateAllUsers :: "state \<Rightarrow> state" where
  "deactivateAllUsers s =
     updateStatistics (s\<lparr> users := map (\<lambda>u. u\<lparr> isActive := False \<rparr>) (users s) \<rparr>)"

definition sortUsersByName :: "platform \<Rightarrow> state \<Rightarrow> state" where
  "sortUsersByName P s =
     s\<lparr> users := arraySort (\<lambda>a b. localeCompare P (name a) (name b)) (users s) \<rparr>"

definition sortUsersByEmail :: "platform \<Rightarrow> state \<Rightarrow> state" where
  "sortUsersByEmail P s =
     s\<lparr> users := arraySort (\<lambda>a b. localeCompare P (email a) (email b)) (users s) \<rparr>"

fun priorityOrder :: "priority \<Rightarrow> int" where
  "priorityOrder High = 3"
| "priorityOrder Medium = 2"
| "priorityOrder Low = 1"

definition sortTodosByPriority :: "state \<Rightarrow> state" where
  "sortTodosByPriority s =
     s\<lparr> todos := arraySort (\<lambda>a b. priorityOrder (priority b) - priorityOrder (priority a))
                    (todos s) \<rparr>"

text \<open>
  The difference of two time values is NaN when one of the dates is invalid; \<open>sort\<close> treats
  a NaN result of the comparison function as \<open>0\<close>.
\<close>

fun timeDifference :: "date \<Rightarrow> date \<Rightarrow> int" where
  "timeDifference (Date x) (Date y) = x - y"
| "timeDifference _ _ = 0"

definition sortTodosByDate :: "state \<Rightarrow> state" where
  "sortTodosByDate s =
     s\<lparr> todos := arraySort (\<lambda>a b. timeDifference (createdAt b) (createdAt a)) (todos s) \<rparr>"

definition resetAllData :: "state \<Rightarrow> state" where
  "resetAllData s =
     updateStatistics
       (s\<lparr> users := [], todos := [], selectedUser := None, userSearchTerm := [],
           newTodoTitle := [], errorMessage := [] \<rparr>)"

definition resetToDefaults :: "state \<Rightarrow> state" where
  "resetToDefaults s =
     (loadInitialTodos (loadInitialUsers s))
       \<lparr> selectedUser := None, userSearchTerm := [], newTodoTitle := [], errorMessage := [],
         theme := str ''light'', todoFilter := FilterAll, selectedPriority := Medium \<rparr>"

section \<open>Values of type \<open>any\<close>\<close>

text \<open>
  Reading a property: \<open>null\<close> and \<open>undefined\<close> have none, and the access throws a
  \<open>TypeError\<close>; an object gives the value of its own property, and \<open>undefined\<close> if it has
  none. The function is used for the names \<open>users\<close>, \<open>todos\<close>, \<open>theme\<close>, \<open>createdAt\<close>,
  \<open>isActive\<close>, \<open>completed\<close> and \<open>priority\<close> only, which no built-in prototype defines, so
  that every other value gives \<open>undefined\<close>.
\<close>

fun getProp :: "jsval \<Rightarrow> jstring \<Rightarrow> error + jsval" where
  "getProp JUndefined k = Inl TypeError"
| "getProp JNull k = Inl TypeError"
| "getProp (JObj ps) k = Inr (case map_of ps k of Some v \<Rightarrow> v | None \<Rightarrow> JUndefined)"
| "getProp v k = Inr JUndefined"

text \<open>\<open>ToBoolean\<close>.\<close>

fun truthy :: "jsval \<Rightarrow> bool" where
  "truthy JUndefined = False"
| "truthy JNull = False"
| "truthy (JBool b) = b"
| "truthy (JNum r) = (r \<noteq> 0)"
| "truthy (JStr s) = (s \<noteq> [])"
| "truthy v = True"

definition isDigit :: "nat \<Rightarrow> bool" where
  "isDigit c \<longleftrightarrow> 48 \<le> c \<and> c \<le> 57"

definition digitsValue :: "nat list \<Rightarrow> nat" where
  "digitsValue ds = foldl (\<lambda>a d. 10 * a + (d - 48)) 0 ds"

text \<open>
  The order of the own properties of an object: the keys that are array indices (canonical
  decimal numerals below \<open>2^32 - 1\<close>) in ascending order, then the other keys in the order of
  their creation. \<open>setProp\<close> is \<open>CreateDataProperty\<close>: an existing key keeps its place.
\<close>

definition isArrayIndex :: "jstring \<Rightarrow> bool" where
  "isArrayIndex k \<longleftrightarrow>
     k \<noteq> [] \<and> list_all isDigit k \<and> (k = [48] \<or> hd k \<noteq> 48) \<and> digitsValue k < 4294967295"

fun insertIndexProp ::
  "jstring \<Rightarrow> jsval \<Rightarrow> (jstring \<times> jsval) list \<Rightarrow> (jstring \<times> jsval) list" where
  "insertIndexProp k v [] = [(k, v)]"
| "insertIndexProp k v (p # ps) =
     (if isArrayIndex (fst p) \<and> digitsValue (fst p) < digitsValue k
      then p # insertIndexProp k v ps else (k, v) # p # ps)"

definition setProp ::
  "(jstring \<times> jsval) list \<Rightarrow> jstring \<Rightarrow> jsval \<Rightarrow> (jstring \<times> jsval) list" where
  "setProp ps k v =
     (if map_of ps k \<noteq> None then map (\<lambda>p. if fst p = k then (k, v) else p) ps
      else if isArrayIndex k then insertIndexProp k v ps
      else ps @ [(k, v)])"

section \<open>\<open>JSON.parse\<close>\<close>

text \<open>
  The JSON grammar of ECMA-404, as \<open>JSON.parse\<close> accepts it: a lexer and a pushdown
  recogniser that builds the value. \<open>None\<close> is the \<open>SyntaxError\<close>.
\<close>

datatype token = TLBrace | TRBrace | TLBracket | TRBracket | TColon | TComma | TValue jsval

definition isJsonSpace :: "nat \<Rightarrow> bool" where
  "isJsonSpace c \<longleftrightarrow> c = 32 \<or> c = 9 \<or> c = 10 \<or> c = 13"

definition hexValue :: "nat \<Rightarrow> nat option" where
  "hexValue c =
     (if 48 \<le> c \<and> c \<le> 57 then Some (c - 48)
      else if 97 \<le> c \<and> c \<le> 102 then Some (c - 87)
      else if 65 \<le> c \<and> c \<le> 70 then Some (c - 55)
      else None)"

definition hex4 :: "nat \<Rightarrow> nat \<Rightarrow> nat \<Rightarrow> nat \<Rightarrow> nat option" where
  "hex4 a b c d =
     (case (hexValue a, hexValue b, hexValue c, hexValue d) of
        (Some x, Some y, Some z, Some w) \<Rightarrow> Some (4096 * x + 256 * y + 16 * z + w)
      | _ \<Rightarrow> None)"

text \<open>The character after a backslash: \<open>" \ / b f n r t\<close>.\<close>

definition escapeChar :: "nat \<Rightarrow> nat option" where
  "escapeChar e =
     (if e = 34 then Some 34 else if e = 92 then Some 92 else if e = 47 then Some 47
      else if e = 98 then Some 8 else if e = 102 then Some 12 else if e = 110 then Some 10
      else if e = 114 then Some 13 else if e = 116 then Some 9 else None)"

definition consChar :: "nat \<Rightarrow> (jstring \<times> nat list) option \<Rightarrow> (jstring \<times> nat list) option" where
  "consChar c r = (case r of None \<Rightarrow> None | Some (s, rest) \<Rightarrow> Some (c # s, rest))"

text \<open>
  \<open>scanString\<close> reads a string after its opening quote, up to and including the closing
  quote; a control character below \<open>U+0020\<close> must be escaped.
\<close>

fun scanString :: "nat list \<Rightarrow> (jstring \<times> nat list) option" where
  "scanString [] = None"
| "scanString (c # cs) =
     (if c = 34 then Some ([], cs)
      else if c = 92 then
        (case cs of
           [] \<Rightarrow> None
         | e # cs1 \<Rightarrow>
             if e = 117 then
               (case cs1 of
                  h1 # h2 # h3 # h4 # cs2 \<Rightarrow>
                    (case hex4 h1 h2 h3 h4 of
                       None \<Rightarrow> None
                     | Some u \<Rightarrow> consChar u (scanString cs2))
                | _ \<Rightarrow> None)
             else
               (case escapeChar e of
                  None \<Rightarrow> None
                | Some u \<Rightarrow> consChar u (scanString cs1)))
      else if c < 32 then None
      else consChar c (scanString cs))"

text \<open>
  A number is \<open>-? (0 | [1-9][0-9]*) (. [0-9]+)? ([eE] [+-]? [0-9]+)?\<close>; its value is the
  digits of the integer and fraction parts, scaled by the power of ten that the exponent
  and the length of the fraction give.
\<close>

definition scanFraction :: "nat list \<Rightarrow> (nat list \<times> nat list) option" where
  "scanFraction cs =
     (case cs of
        [] \<Rightarrow> Some ([], cs)
      | c # r \<Rightarrow>
          if c = 46 then
            (if takeWhile isDigit r = [] then None
             else Some (takeWhile isDigit r, dropWhile isDigit r))
          else Some ([], cs))"

definition scanExponentDigits :: "bool \<Rightarrow> nat list \<Rightarrow> (int \<times> nat list) option" where
  "scanExponentDigits neg r =
     (if takeWhile isDigit r = [] then None
      else Some ((if neg then - 1 else 1) * int (digitsValue (takeWhile isDigit r)),
                 dropWhile isDigit r))"

definition scanExponent :: "nat list \<Rightarrow> (int \<times> nat list) option" where
  "scanExponent cs =
     (case cs of
        [] \<Rightarrow> Some (0, cs)
      | c # r \<Rightarrow>
          if c = 101 \<or> c = 69 then
            (case r of
               [] \<Rightarrow> None
             | g # r1 \<Rightarrow>
                 if g = 43 then scanExponentDigits False r1
                 else if g = 45 then scanExponentDigits True r1
                 else scanExponentDigits False r)
          else Some (0, cs))"

definition numberValue :: "bool \<Rightarrow> nat list \<Rightarrow> int \<Rightarrow> rat" where
  "numberValue neg ds k =
     (let m = (if neg then - 1 else 1) * int (digitsValue ds) in
      if k \<ge> 0 then of_int (m * 10 ^ nat k) else of_int m / of_int (10 ^ nat (- k)))"

definition scanUnsigned :: "bool \<Rightarrow> nat list \<Rightarrow> (rat \<times> nat list) option" where
  "scanUnsigned neg cs =
     (let ip = takeWhile isDigit cs in
      if ip = [] \<or> (hd ip = 48 \<and> length ip > 1) then None
      else
        (case scanFraction (dropWhile isDigit cs) of
           None \<Rightarrow> None
         | Some (fp, cs2) \<Rightarrow>
             (case scanExponent cs2 of
                None \<Rightarrow> None
              | Some (e, cs3) \<Rightarrow> Some (numberValue neg (ip @ fp) (e - int (length fp)), cs3))))"

definition scanNumber :: "nat list \<Rightarrow> (rat \<times> nat list) option" where
  "scanNumber cs =
     (case cs of
        [] \<Rightarrow> None
      | c # r \<Rightarrow> if c = 45 then scanUnsigned True r else scanUnsigned False cs)"

definition consToken :: "token \<Rightarrow> token list option \<Rightarrow> token list option" where
  "consToken t r = (case r of None \<Rightarrow> None | Some ts \<Rightarrow> Some (t # ts))"

function lex :: "nat list \<Rightarrow> token list option" where
  "lex [] = Some []"
| "lex (c # cs) =
     (if isJsonSpace c then lex cs
      else if c = 123 then consToken TLBrace (lex cs)
      else if c = 125 then consToken TRBrace (lex cs)
      else if c = 91 then consToken TLBracket (lex cs)
      else if c = 93 then consToken TRBracket (lex cs)
      else if c = 58 then consToken TColon (lex cs)
      else if c = 44 then consToken TComma (lex cs)
      else if c = 34 then
        (case scanString cs of
           None \<Rightarrow> None
         | Some (s, rest) \<Rightarrow> consToken (TValue (JStr s)) (lex rest))
      else if c = 45 \<or> isDigit c then
        (case scanNumber (c # cs) of
           None \<Rightarrow> None
         | Some (r, rest) \<Rightarrow> consToken (TValue (JNum r)) (lex rest))
      else if take 4 (c # cs) = str ''true'' then
        consToken (TValue (JBool True)) (lex (drop 3 cs))
      else if take 5 (c # cs) = str ''false'' then
        consToken (TValue (JBool False)) (lex (drop 4 cs))
      else if take 4 (c # cs) = str ''null'' then
        consToken (TValue JNull) (lex (drop 3 cs))
      else None)"
  by pat_completeness auto

termination
proof -
  have d: "length (dropWhile isDigit xs) \<le> length xs" for xs :: "nat list"
    by (rule length_dropWhile_le)
  have f: "length b \<le> length a" if "scanFraction a = Some (x, b)" for a x b
    using that d [of "tl a"]
    by (auto simp: scanFraction_def split: list.splits if_splits)
  have g: "length b \<le> length a" if "scanExponentDigits n a = Some (x, b)" for n a x b
    using that d [of a] by (auto simp: scanExponentDigits_def split: if_splits)
  have e: "length b \<le> length a" if "scanExponent a = Some (x, b)" for a x b
    using that
    by (auto simp: scanExponent_def split: list.splits if_splits dest!: g)
  have scanString_length: "length rest \<le> length cs" if "scanString cs = Some (s, rest)"
    for cs s rest
    using that
  proof (induction cs arbitrary: s rest rule: scanString.induct)
    case 1
    then show ?case by simp
  next
    case (2 c cs)
    then show ?case
      by (fastforce simp: consChar_def split: if_splits list.splits option.splits)
  qed
  have scanUnsigned_progress: "length rest < length cs" if "scanUnsigned neg cs = Some (r, rest)"
    for neg cs r rest
  proof -
    from that have "takeWhile isDigit cs \<noteq> []"
      by (auto simp: scanUnsigned_def Let_def split: if_splits)
    then have "length (takeWhile isDigit cs) > 0" by simp
    moreover have "length (takeWhile isDigit cs) + length (dropWhile isDigit cs) = length cs"
      by (metis length_append takeWhile_dropWhile_id)
    ultimately have "length (dropWhile isDigit cs) < length cs" by linarith
    moreover from that obtain fp cs2 e' where
      "scanFraction (dropWhile isDigit cs) = Some (fp, cs2)" "scanExponent cs2 = Some (e', rest)"
      by (auto simp: scanUnsigned_def Let_def split: if_splits option.splits)
    then have "length rest \<le> length (dropWhile isDigit cs)"
      using f e by (meson order_trans)
    ultimately show ?thesis by simp
  qed
  have scanNumber_progress: "length rest < length cs" if "scanNumber cs = Some (r, rest)"
    for cs r rest
    using that scanUnsigned_progress [of True "tl cs" r rest] scanUnsigned_progress [of False cs r rest]
    by (auto simp: scanNumber_def split: list.splits if_splits)
  show ?thesis
    by (relation "measure length")
      (auto dest: scanString_length scanNumber_progress)
qed

text \<open>
  The recogniser keeps a stack of the arrays and objects that are open, each with the
  elements or properties read so far (an object also with the key whose value is awaited),
  and what may come next.
\<close>

datatype frame = ArrayFrame "jsval list" | ObjectFrame "(jstring \<times> jsval) list" "jstring option"

datatype expect = Value | ValueOrClose | CommaOrClose | KeyOrClose | Key | Colon

datatype pstate = Parsing "frame list" expect | Parsed jsval

fun deliver :: "jsval \<Rightarrow> frame list \<Rightarrow> pstate option" where
  "deliver v [] = Some (Parsed v)"
| "deliver v (ArrayFrame es # fs) = Some (Parsing (ArrayFrame (es @ [v]) # fs) CommaOrClose)"
| "deliver v (ObjectFrame ps (Some k) # fs) =
     Some (Parsing (ObjectFrame (setProp ps k v) None # fs) CommaOrClose)"
| "deliver v (ObjectFrame ps None # fs) = None"

fun startValue :: "frame list \<Rightarrow> token \<Rightarrow> pstate option" where
  "startValue fs (TValue v) = deliver v fs"
| "startValue fs TLBracket = Some (Parsing (ArrayFrame [] # fs) ValueOrClose)"
| "startValue fs TLBrace = Some (Parsing (ObjectFrame [] None # fs) KeyOrClose)"
| "startValue fs t = None"

fun closeArray :: "frame list \<Rightarrow> pstate option" where
  "closeArray (ArrayFrame es # fs) = deliver (JArr es) fs"
| "closeArray fs = None"

fun closeObject :: "frame list \<Rightarrow> pstate option" where
  "closeObject (ObjectFrame ps None # fs) = deliver (JObj ps) fs"
| "closeObject fs = None"

fun readKey :: "frame list \<Rightarrow> token \<Rightarrow> pstate option" where
  "readKey (ObjectFrame ps None # fs) (TValue (JStr k)) =
     Some (Parsing (ObjectFrame ps (Some k) # fs) Colon)"
| "readKey fs t = None"

fun afterComma :: "frame list \<Rightarrow> pstate option" where
  "afterComma (ArrayFrame es # fs) = Some (Parsing (ArrayFrame es # fs) Value)"
| "afterComma (ObjectFrame ps None # fs) = Some (Parsing (ObjectFrame ps None # fs) Key)"
| "afterComma fs = None"

fun step :: "pstate \<Rightarrow> token \<Rightarrow> pstate option" where
  "step (Parsed v) t = None"
| "step (Parsing fs Value) t = startValue fs t"
| "step (Parsing fs ValueOrClose) t = (if t = TRBracket then closeArray fs else startValue fs t)"
| "step (Parsing fs CommaOrClose) t =
     (if t = TComma then afterComma fs
      else if t = TRBracket then closeArray fs
      else if t = TRBrace then closeObject fs
      else None)"
| "step (Parsing fs KeyOrClose) t = (if t = TRBrace then closeObject fs else readKey fs t)"
| "step (Parsing fs Key) t = readKey fs t"
| "step (Parsing fs Colon) t = (if t = TColon then Some (Parsing fs Value) else None)"

fun run :: "pstate \<Rightarrow> token list \<Rightarrow> pstate option" where
  "run st [] = Some st"
| "run st (t # ts) = (case step st t of None \<Rightarrow> None | Some st' \<Rightarrow> run st' ts)"

text \<open>\<open>parseFrom st text\<close> reads \<open>text\<close> to its end, starting in the state \<open>st\<close>.\<close>

definition parseFrom :: "pstate \<Rightarrow> jstring \<Rightarrow> pstate option" where
  "parseFrom st text = (case lex text of None \<Rightarrow> None | Some ts \<Rightarrow> run st ts)"

definition JSON_parse :: "jstring \<Rightarrow> jsval option" where
  "JSON_parse text =
     (case parseFrom (Parsing [] Value) text of
        Some (Parsed v) \<Rightarrow> Some v
      | _ \<Rightarrow> None)"

section \<open>Statistics and import on values of type \<open>any\<close>\<close>

text \<open>
  \<open>importData\<close> assigns to \<open>users\<close> and \<open>theme\<close> what it finds in the parsed text, unchecked.
  \<open>anystate\<close> is the component whose \<open>users\<close>, \<open>todos\<close> and \<open>theme\<close> hold arbitrary values.
\<close>

type_synonym anystate = "(jsval, jsval, jsval) component"

text \<open>
  \<open>xs.filter(p).length\<close> for a callback that may throw: the first exception ends the
  call.
\<close>

fun countWhere :: "(jsval \<Rightarrow> error + bool) \<Rightarrow> jsval list \<Rightarrow> error + nat" where
  "countWhere p [] = Inr 0"
| "countWhere p (x # xs) =
     (case p x of
        Inl e \<Rightarrow> Inl e
      | Inr b \<Rightarrow>
          (case countWhere p xs of
             Inl e \<Rightarrow> Inl e
           | Inr n \<Rightarrow> Inr (if b then Suc n else n)))"

definition propIs :: "(jsval \<Rightarrow> bool) \<Rightarrow> jstring \<Rightarrow> jsval \<Rightarrow> error + bool" where
  "propIs test k v = (case getProp v k of Inl e \<Rightarrow> Inl e | Inr x \<Rightarrow> Inr (test x))"

text \<open>
  \<open>updateStatistics\<close> as it runs on arbitrary arrays: \<open>u.isActive\<close> and \<open>t.completed\<close> are
  taken by truthiness, \<open>t.priority === 'high'\<close> by strict equality with the string. An
  exception leaves \<open>statistics\<close> unassigned.
\<close>

definition updateStatisticsAny :: "anystate \<Rightarrow> error + anystate" where
  "updateStatisticsAny r =
     (case countWhere (propIs truthy (str ''isActive'')) (users r) of
        Inl e \<Rightarrow> Inl e
      | Inr active \<Rightarrow>
     (case countWhere (propIs truthy (str ''completed'')) (todos r) of
        Inl e \<Rightarrow> Inl e
      | Inr done \<Rightarrow>
     (case countWhere (propIs (\<lambda>p. p = JStr (str ''high'')) (str ''priority'')) (todos r) of
        Inl e \<Rightarrow> Inl e
      | Inr highs \<Rightarrow>
          Inr (r\<lparr> statistics :=
                    \<lparr> totalUsers = length (users r), activeUsers = active,
                      totalTodos = length (todos r), completedTodos = done,
                      highPriorityTodos = highs \<rparr> \<rparr>))))"

text \<open>
  The decimal numeral of a natural number (the key of an array element) and of an integer.
\<close>

fun natText :: "nat \<Rightarrow> jstring" where
  "natText n = (if n < 10 then [48 + n] else natText (n div 10) @ [48 + n mod 10])"

declare natText.simps [simp del]

definition intText :: "int \<Rightarrow> jstring" where
  "intText i = (if i < 0 then 45 # natText (nat (- i)) else natText (nat i))"

text \<open>
  The own enumerable properties that the spread \<open>{...todo}\<close> copies: those of an object, the
  elements of an array and the code units of a string under their indices, none for the
  other values. \<open>spread\<close> creates them in a fresh object.
\<close>

fun ownProps :: "jsval \<Rightarrow> (jstring \<times> jsval) list" where
  "ownProps (JObj ps) = ps"
| "ownProps (JArr vs) = zip (map natText [0 ..< length vs]) vs"
| "ownProps (JStr s) = zip (map natText [0 ..< length s]) (map (\<lambda>c. JStr [c]) s)"
| "ownProps v = []"

definition spread :: "jsval \<Rightarrow> (jstring \<times> jsval) list" where
  "spread v = foldl (\<lambda>ps p. setProp ps (fst p) (snd p)) [] (ownProps v)"

text \<open>The callback of \<open>data.todos.map\<close>: \<open>({...todo, createdAt: new Date(todo.createdAt)})\<close>.\<close>

definition importTodo :: "platform \<Rightarrow> jsval \<Rightarrow> error + jsval" where
  "importTodo P todo =
     (case getProp todo (str ''createdAt'') of
        Inl e \<Rightarrow> Inl e
      | Inr c \<Rightarrow> Inr (JObj (setProp (spread todo) (str ''createdAt'') (JDate (newDate P c)))))"

fun mapThrowing :: "('a \<Rightarrow> error + 'b) \<Rightarrow> 'a list \<Rightarrow> error + 'b list" where
  "mapThrowing f [] = Inr []"
| "mapThrowing f (x # xs) =
     (case f x of
        Inl e \<Rightarrow> Inl e
      | Inr y \<Rightarrow> (case mapThrowing f xs of Inl e \<Rightarrow> Inl e | Inr ys \<Rightarrow> Inr (y # ys)))"

text \<open>
  The three conditional assignments of \<open>importData\<close>. \<open>data.users && Array.isArray(data.users)\<close>
  holds exactly for an array, since every array is truthy; \<open>todos\<close> is assigned only after
  \<open>map\<close> has returned.
\<close>

definition assignUsers :: "jsval \<Rightarrow> anystate \<Rightarrow> anystate" where
  "assignUsers dataUsers r = (case dataUsers of JArr us \<Rightarrow> r\<lparr> users := us \<rparr> | _ \<Rightarrow> r)"

definition assignTodos :: "platform \<Rightarrow> jsval \<Rightarrow> anystate \<Rightarrow> error + anystate" where
  "assignTodos P dataTodos r =
     (case dataTodos of
        JArr ts \<Rightarrow>
          (case mapThrowing (importTodo P) ts of
             Inl e \<Rightarrow> Inl e
           | Inr ts' \<Rightarrow> Inr (r\<lparr> todos := ts' \<rparr>))
      | _ \<Rightarrow> Inr r)"

definition assignTheme :: "jsval \<Rightarrow> anystate \<Rightarrow> anystate" where
  "assignTheme dataTheme r = (if truthy dataTheme then r\<lparr> theme := dataTheme \<rparr> else r)"

text \<open>
  The \<open>try\<close> block of \<open>importData\<close>: the component as the block leaves it, and the exception
  that ended it, if any.
\<close>

definition importBlock :: "platform \<Rightarrow> jstring \<Rightarrow> anystate \<Rightarrow> anystate \<times> error option" where
  "importBlock P jsonData r =
     (case JSON_parse jsonData of
        None \<Rightarrow> (r, Some SyntaxError)
      | Some data \<Rightarrow>
     (case getProp data (str ''users'') of
        Inl e \<Rightarrow> (r, Some e)
      | Inr dataUsers \<Rightarrow>
     (case getProp data (str ''todos'') of
        Inl e \<Rightarrow> (assignUsers dataUsers r, Some e)
      | Inr dataTodos \<Rightarrow>
     (case assignTodos P dataTodos (assignUsers dataUsers r) of
        Inl e \<Rightarrow> (assignUsers dataUsers r, Some e)
      | Inr r2 \<Rightarrow>
     (case getProp data (str ''theme'') of
        Inl e \<Rightarrow> (r2, Some e)
      | Inr dataTheme \<Rightarrow>
     (case updateStatisticsAny (assignTheme dataTheme r2) of
        Inl e \<Rightarrow> (assignTheme dataTheme r2, Some e)
      | Inr r4 \<Rightarrow> (r4\<lparr> errorMessage := [] \<rparr>, None)))))))"

definition importData :: "platform \<Rightarrow> jstring \<Rightarrow> anystate \<Rightarrow> anystate" where
  "importData P jsonData r =
     (case importBlock P jsonData r of
        (r', None) \<Rightarrow> r'
      | (r', Some e) \<Rightarrow> r'\<lparr> errorMessage := str ''Invalid JSON data for import'' \<rparr>)"

section \<open>Typed and untyped components\<close>

text \<open>
  The objects that the component itself creates for a user and a todo, with their
  properties in the order of the object literals of the source.
\<close>

fun priorityName :: "priority \<Rightarrow> jstring" where
  "priorityName Low = str ''low''"
| "priorityName Medium = str ''medium''"
| "priorityName High = str ''high''"

definition ofUser :: "user \<Rightarrow> jsval" where
  "ofUser u =
     JObj [(str ''id'', JNum (of_int (user_id u))), (str ''name'', JStr (name u)),
           (str ''email'', JStr (email u)), (str ''isActive'', JBool (isActive u))]"

definition ofTodo :: "todo \<Rightarrow> jsval" where
  "ofTodo t =
     JObj [(str ''id'', JNum (of_int (todo_id t))), (str ''title'', JStr (title t)),
           (str ''completed'', JBool (completed t)),
           (str ''priority'', JStr (priorityName (priority t))),
           (str ''createdAt'', JDate (createdAt t))]"

definition reify :: "state \<Rightarrow> anystate" where
  "reify s =
     \<lparr> users = map ofUser (users s), selectedUser = map_option ofUser (selectedUser s),
       userSearchTerm = userSearchTerm s, showUserForm = showUserForm s,
       todos = map ofTodo (todos s), newTodoTitle = newTodoTitle s,
       selectedPriority = selectedPriority s, todoFilter = todoFilter s,
       isLoading = isLoading s, errorMessage = errorMessage s,
       currentTime = currentTime s, counter = counter s, theme = JStr (theme s),
       statistics = statistics s, storedTheme = storedTheme s \<rparr>"





fun thePriority :: "jsval \<Rightarrow> priority option" where
  "thePriority (JStr s) =
     (if s = str ''low'' then Some Low else if s = str ''medium'' then Some Medium
      else if s = str ''high'' then Some High else None)"
| "thePriority v = None"






section \<open>\<open>JSON.stringify\<close> and export\<close>

text \<open>
  \<open>QuoteJSONString\<close>: the quote, the backslash and the control characters are escaped, a
  surrogate that is not part of a pair is written as \<open>\uXXXX\<close>, every other code unit stands
  for itself.
\<close>

definition escapeOf :: "nat \<Rightarrow> nat option" where
  "escapeOf c =
     (if c = 8 then Some 98 else if c = 9 then Some 116 else if c = 10 then Some 110
      else if c = 12 then Some 102 else if c = 13 then Some 114 else if c = 34 then Some 34
      else if c = 92 then Some 92 else None)"

definition hexDigit :: "nat \<Rightarrow> nat" where
  "hexDigit n = (if n < 10 then 48 + n else 87 + n)"

definition unicodeEscape :: "nat \<Rightarrow> jstring" where
  "unicodeEscape c =
     [92, 117, hexDigit (c div 4096), hexDigit (c div 256 mod 16), hexDigit (c div 16 mod 16),
      hexDigit (c mod 16)]"

definition isLeadSurrogate :: "nat \<Rightarrow> bool" where
  "isLeadSurrogate c \<longleftrightarrow> 55296 \<le> c \<and> c \<le> 56319"

definition isTrailSurrogate :: "nat \<Rightarrow> bool" where
  "isTrailSurrogate c \<longleftrightarrow> 56320 \<le> c \<and> c \<le> 57343"

fun quoteChars :: "jstring \<Rightarrow> jstring" where
  "quoteChars [] = []"
| "quoteChars (c # cs) =
     (case escapeOf c of
        Some e \<Rightarrow> [92, e] @ quoteChars cs
      | None \<Rightarrow>
          if c < 32 then unicodeEscape c @ quoteChars cs
          else if isLeadSurrogate c then
            (case cs of
               [] \<Rightarrow> unicodeEscape c
             | d # ds \<Rightarrow>
                 if isTrailSurrogate d then c # d # quoteChars ds
                 else unicodeEscape c @ quoteChars cs)
          else if isTrailSurrogate c then unicodeEscape c @ quoteChars cs
          else c # quoteChars cs)"

definition quoteJSON :: "jstring \<Rightarrow> jstring" where
  "quoteJSON s = [34] @ quoteChars s @ [34]"

text \<open>
  \<open>Number::toString\<close> writes an integer below \<open>10^21\<close> as its decimal numeral; the other
  numbers are left to the platform.
\<close>

definition numberText :: "platform \<Rightarrow> rat \<Rightarrow> jstring" where
  "numberText P r =
     (if of_int \<lfloor>r\<rfloor> = r \<and> \<bar>r\<bar> < 10 ^ 21 then intText \<lfloor>r\<rfloor> else numberToString P r)"

text \<open>
  \<open>JSON.stringify(value, null, 2)\<close>: \<open>ser P indent v\<close> is the text of \<open>v\<close> when the current
  indentation is \<open>indent\<close>. Each element or property stands on a line of its own, two
  spaces deeper than its container; an empty array is \<open>[]\<close> and an object without
  properties to print is \<open>{}\<close>. A \<open>Date\<close> is serialised through \<open>toJSON\<close> (its ISO text, or
  \<open>null\<close> when invalid). \<open>undefined\<close> is \<open>null\<close> as an array element and is left out as a
  property value.
\<close>

fun ser :: "platform \<Rightarrow> jstring \<Rightarrow> jsval \<Rightarrow> jstring"
  and serElements :: "platform \<Rightarrow> jstring \<Rightarrow> bool \<Rightarrow> jsval list \<Rightarrow> jstring"
  and serMembers :: "platform \<Rightarrow> jstring \<Rightarrow> bool \<Rightarrow> (jstring \<times> jsval) list \<Rightarrow> jstring"
where
  "ser P indent JUndefined = str ''null''"
| "ser P indent JNull = str ''null''"
| "ser P indent (JBool b) = (if b then str ''true'' else str ''false'')"
| "ser P indent (JNum r) = numberText P r"
| "ser P indent (JStr s) = quoteJSON s"
| "ser P indent (JDate d) =
     (case d of Date t \<Rightarrow> quoteJSON (toISOString P t) | InvalidDate \<Rightarrow> str ''null'')"
| "ser P indent (JArr vs) =
     (if vs = [] then str ''[]''
      else [91] @ serElements P (indent @ [32, 32]) True vs @ [10] @ indent @ [93])"
| "ser P indent (JObj ps) =
     (if serMembers P (indent @ [32, 32]) True ps = [] then str ''{}''
      else [123] @ serMembers P (indent @ [32, 32]) True ps @ [10] @ indent @ [125])"
| "serElements P indent first [] = []"
| "serElements P indent first (v # vs) =
     (if first then [] else [44]) @ [10] @ indent @ ser P indent v @
     serElements P indent False vs"
| "serMembers P indent first [] = []"
| "serMembers P indent first (p # ps) =
     (if snd p = JUndefined then serMembers P indent first ps
      else (if first then [] else [44]) @ [10] @ indent @ quoteJSON (fst p) @ [58, 32] @
           ser P indent (snd p) @ serMembers P indent False ps)"

text \<open>
  What \<open>JSON.parse\<close> makes of the text of a value: a \<open>Date\<close> comes back as its ISO string (or
  \<open>null\<close>), \<open>undefined\<close> as \<open>null\<close> in an array and not at all in an object, and the properties
  of an object are created anew in the order of the text. \<open>integersOnly\<close> holds for a value
  all of whose numbers are integers below \<open>10^21\<close>, which \<open>ser\<close> prints itself.
\<close>

fun jsonOf :: "platform \<Rightarrow> jsval \<Rightarrow> jsval"
  and jsonOfElements :: "platform \<Rightarrow> jsval list \<Rightarrow> jsval list"
  and jsonOfMembers ::
    "platform \<Rightarrow> (jstring \<times> jsval) list \<Rightarrow> (jstring \<times> jsval) list \<Rightarrow> (jstring \<times> jsval) list"
where
  "jsonOf P JUndefined = JNull"
| "jsonOf P JNull = JNull"
| "jsonOf P (JBool b) = JBool b"
| "jsonOf P (JNum r) = JNum r"
| "jsonOf P (JStr s) = JStr s"
| "jsonOf P (JDate d) = (case d of Date t \<Rightarrow> JStr (toISOString P t) | InvalidDate \<Rightarrow> JNull)"
| "jsonOf P (JArr vs) = JArr (jsonOfElements P vs)"
| "jsonOf P (JObj ps) = JObj (jsonOfMembers P [] ps)"
| "jsonOfElements P [] = []"
| "jsonOfElements P (v # vs) = jsonOf P v # jsonOfElements P vs"
| "jsonOfMembers P acc [] = acc"
| "jsonOfMembers P acc (p # ps) =
     (if snd p = JUndefined then jsonOfMembers P acc ps
      else jsonOfMembers P (setProp acc (fst p) (jsonOf P (snd p))) ps)"

fun integersOnly :: "jsval \<Rightarrow> bool"
  and integersOnlyElements :: "jsval list \<Rightarrow> bool"
  and integersOnlyMembers :: "(jstring \<times> jsval) list \<Rightarrow> bool"
where
  "integersOnly (JNum r) = (of_int \<lfloor>r\<rfloor> = r \<and> \<bar>r\<bar> < 10 ^ 21)"
| "integersOnly (JArr vs) = integersOnlyElements vs"
| "integersOnly (JObj ps) = integersOnlyMembers ps"
| "integersOnly v = True"
| "integersOnlyElements [] = True"
| "integersOnlyElements (v # vs) = (integersOnly v \<and> integersOnlyElements vs)"
| "integersOnlyMembers [] = True"
| "integersOnlyMembers (p # ps) = (integersOnly (snd p) \<and> integersOnlyMembers ps)"

text \<open>
  A text is \<open>delimited\<close> when it is empty or goes on with a comma or a line feed, as the text
  after a printed value does. A date \<open>roundTrips\<close> on a platform when it is valid and the
  platform's \<open>Date\<close> reads its ISO text back to the same time value, as ECMAScript requires
  of \<open>Date.parse\<close> and \<open>toISOString\<close>.
\<close>

definition delimited :: "nat list \<Rightarrow> bool" where
  "delimited rest \<longleftrightarrow> rest = [] \<or> hd rest = 44 \<or> hd rest = 10"

definition roundTrips :: "platform \<Rightarrow> date \<Rightarrow> bool" where
  "roundTrips P d = (case d of Date ms \<Rightarrow> newDate P (JStr (toISOString P ms)) = Date ms
                     | InvalidDate \<Rightarrow> False)"

text \<open>\<open>now\<close> is the value of \<open>new Date()\<close> at the time of the call.\<close>

definition exportData :: "platform \<Rightarrow> int \<Rightarrow> state \<Rightarrow> jstring" where
  "exportData P now s =
     ser P []
       (JObj [(str ''users'', JArr (map ofUser (users s))),
              (str ''todos'', JArr (map ofTodo (todos s))),
              (str ''theme'', JStr (theme s)),
              (str ''exportDate'', JStr (toISOString P now))])"

section \<open>The public operations\<close>






section \<open>A platform for the examples\<close>

text \<open>
  The closed examples below run on this platform. Its \<open>Date\<close> reads the simplified ISO 8601
  formats \<open>YYYY-MM-DDTHH:mm:ss.sssZ\<close> and \<open>YYYY-MM-DD\<close> and writes the first of them, its
  \<open>localeCompare\<close> compares code units, and its numbers are printed in fixed notation. The
  calendar arithmetic is the proleptic Gregorian calendar in days since 1970-01-01.
\<close>

definition pad :: "nat \<Rightarrow> nat \<Rightarrow> jstring" where
  "pad w n = replicate (w - length (natText n)) 48 @ natText n"

definition civilFromDays :: "int \<Rightarrow> int \<times> int \<times> int" where
  "civilFromDays days =
     (let z = days + 719468;
          era = z div 146097;
          doe = z mod 146097;
          yoe = (doe - doe div 1460 + doe div 36524 - doe div 146096) div 365;
          doy = doe - (365 * yoe + yoe div 4 - yoe div 100);
          mp = (5 * doy + 2) div 153;
          d = doy - (153 * mp + 2) div 5 + 1;
          m = (if mp < 10 then mp + 3 else mp - 9);
          y = yoe + era * 400
      in (if m \<le> 2 then y + 1 else y, m, d))"

definition daysFromCivil :: "int \<Rightarrow> int \<Rightarrow> int \<Rightarrow> int" where
  "daysFromCivil y m d =
     (let y1 = (if m \<le> 2 then y - 1 else y);
          era = y1 div 400;
          yoe = y1 mod 400;
          doy = (153 * (if m > 2 then m - 3 else m + 9) + 2) div 5 + d - 1;
          doe = yoe * 365 + yoe div 4 - yoe div 100 + doy
      in era * 146097 + doe - 719468)"

definition daysInMonth :: "int \<Rightarrow> int \<Rightarrow> int" where
  "daysInMonth y m =
     (if m = 2 then (if y mod 4 = 0 \<and> (y mod 100 \<noteq> 0 \<or> y mod 400 = 0) then 29 else 28)
      else if m = 4 \<or> m = 6 \<or> m = 9 \<or> m = 11 then 30 else 31)"

definition isoText :: "int \<Rightarrow> jstring" where
  "isoText t =
     (let ms = nat (t mod 86400000) in
      case civilFromDays (t div 86400000) of
        (y, m, d) \<Rightarrow>
          (if 0 \<le> y \<and> y \<le> 9999 then pad 4 (nat y)
           else (if y < 0 then 45 else 43) # pad 6 (nat \<bar>y\<bar>)) @
          [45] @ pad 2 (nat m) @ [45] @ pad 2 (nat d) @ [84] @
          pad 2 (ms div 3600000) @ [58] @ pad 2 (ms div 60000 mod 60) @ [58] @
          pad 2 (ms div 1000 mod 60) @ [46] @ pad 3 (ms mod 1000) @ [90])"

definition field :: "nat \<Rightarrow> nat \<Rightarrow> jstring \<Rightarrow> int option" where
  "field i n s =
     (if i + n \<le> length s \<and> list_all isDigit (take n (drop i s))
      then Some (int (digitsValue (take n (drop i s)))) else None)"

definition isoDate :: "jstring \<Rightarrow> int option" where
  "isoDate s =
     (case (field 0 4 s, field 5 2 s, field 8 2 s) of
        (Some y, Some m, Some d) \<Rightarrow>
          if s ! 4 = 45 \<and> s ! 7 = 45 \<and> 1 \<le> m \<and> m \<le> 12 \<and> 1 \<le> d \<and> d \<le> daysInMonth y m
          then Some (daysFromCivil y m d * 86400000) else None
      | _ \<Rightarrow> None)"

definition isoTime :: "jstring \<Rightarrow> int option" where
  "isoTime s =
     (case (field 11 2 s, field 14 2 s, field 17 2 s, field 20 3 s) of
        (Some h, Some mi, Some sec, Some ms) \<Rightarrow>
          if s ! 10 = 84 \<and> s ! 13 = 58 \<and> s ! 16 = 58 \<and> s ! 19 = 46 \<and> s ! 23 = 90 \<and>
             h \<le> 23 \<and> mi \<le> 59 \<and> sec \<le> 59
          then Some (h * 3600000 + mi * 60000 + sec * 1000 + ms) else None
      | _ \<Rightarrow> None)"

definition isoParse :: "jstring \<Rightarrow> date" where
  "isoParse s =
     (if length s = 10 then (case isoDate s of Some t \<Rightarrow> Date t | None \<Rightarrow> InvalidDate)
      else if length s = 24 then
        (case (isoDate s, isoTime s) of
           (Some t, Some u) \<Rightarrow> Date (t + u)
         | _ \<Rightarrow> InvalidDate)
      else InvalidDate)"

fun exampleNewDate :: "jsval \<Rightarrow> date" where
  "exampleNewDate (JStr s) = isoParse s"
| "exampleNewDate (JDate d) = d"
| "exampleNewDate JNull = Date 0"
| "exampleNewDate (JBool b) = Date (if b then 1 else 0)"
| "exampleNewDate (JNum r) =
     (if \<bar>r\<bar> \<le> 8640000000000000 then Date (if r < 0 then \<lceil>r\<rceil> else \<lfloor>r\<rfloor>) else InvalidDate)"
| "exampleNewDate v = InvalidDate"

fun compareUnits :: "jstring \<Rightarrow> jstring \<Rightarrow> int" where
  "compareUnits [] [] = 0"
| "compareUnits [] (y # ys) = - 1"
| "compareUnits (x # xs) [] = 1"
| "compareUnits (x # xs) (y # ys) =
     (if x < y then - 1 else if y < x then 1 else compareUnits xs ys)"

fun fractionDigits :: "nat \<Rightarrow> rat \<Rightarrow> jstring" where
  "fractionDigits 0 r = []"
| "fractionDigits (Suc n) r =
     (if r = 0 then []
      else (48 + nat \<lfloor>r * 10\<rfloor>) # fractionDigits n (r * 10 - of_int \<lfloor>r * 10\<rfloor>))"

definition fixedText :: "rat \<Rightarrow> jstring" where
  "fixedText r =
     (if r < 0 then [45] else []) @ natText (nat \<lfloor>\<bar>r\<bar>\<rfloor>) @
     (if of_int \<lfloor>r\<rfloor> = r then [] else [46] @ fractionDigits 20 (\<bar>r\<bar> - of_int \<lfloor>\<bar>r\<bar>\<rfloor>))"

definition examplePlatform :: platform where
  "examplePlatform =
     \<lparr> newDate = exampleNewDate, toISOString = isoText, numberToString = fixedText,
       localeCompare = compareUnits \<rparr>"

section \<open>Examples\<close>

text \<open>
  The component after \<open>ngOnInit\<close> (constructed at time \<open>0\<close>, nothing stored under the theme
  key), and a session of operations with an import whose users have different ids.
\<close>

definition seeded :: state where
  "seeded = ngOnInit (initial 0)"


section \<open>Basic facts\<close>

lemma str_eq_iff: "str a = str b \<longleftrightarrow> a = b"
  by (simp add: str_def inj_of_char)


section \<open>Sorting and reset\<close>

lemma insertSorted_insort_key:
  "(\<And>a b. cmp a b \<le> 0 \<longleftrightarrow> f a \<le> f b) \<Longrightarrow> insertSorted cmp x ys = insort_key f x ys"
  by (induction ys) auto

lemma arraySort_sort_key:
  assumes "\<And>a b. cmp a b \<le> 0 \<longleftrightarrow> f a \<le> f b"
  shows "arraySort cmp xs = sort_key f xs"
  unfolding arraySort_def sort_key_def
  by (induction xs) (simp_all add: insertSorted_insort_key [OF assms])



lemma sortTodosByPriority_key:
  "todos (sortTodosByPriority s) = sort_key (\<lambda>t. - priorityOrder (priority t)) (todos s)"
  unfolding sortTodosByPriority_def
  by (simp add: arraySort_sort_key [where f = "\<lambda>t. - priorityOrder (priority t)"])

lemma priorityOrder_inj: "priorityOrder p = priorityOrder q \<longleftrightarrow> p = q"
  by (cases p; cases q) simp_all

text \<open>
  C9. After \<open>sortTodosByPriority\<close> the todos are a permutation of the todos before, their
  ranks (high 3, medium 2, low 1) never increase along the list, and for every priority
  the todos of that priority stand in the order they had before (the sort is stable); no
  other field changes.
\<close>

theorem sortTodosByPriority_sorted_stable:
  "mset (todos (sortTodosByPriority s)) = mset (todos s) \<and>
   sorted_wrt (\<lambda>a b. priorityOrder (priority a) \<ge> priorityOrder (priority b))
     (todos (sortTodosByPriority s)) \<and>
   (\<forall>p. filter (\<lambda>t. priority t = p) (todos (sortTodosByPriority s)) =
        filter (\<lambda>t. priority t = p) (todos s)) \<and>
   sortTodosByPriority s = s\<lparr> todos := todos (sortTodosByPriority s) \<rparr>"
proof -
  let ?f = "\<lambda>t. - priorityOrder (priority t)"
  have perm: "mset (todos (sortTodosByPriority s)) = mset (todos s)"
    by (simp add: sortTodosByPriority_key)
  have "sorted (map ?f (sort_key ?f (todos s)))"
    by (rule sorted_sort_key)
  then have desc: "sorted_wrt (\<lambda>a b. priorityOrder (priority a) \<ge> priorityOrder (priority b))
     (todos (sortTodosByPriority s))"
    by (simp add: sortTodosByPriority_key sorted_wrt_map)
  have stable: "filter (\<lambda>t. priority t = p) (todos (sortTodosByPriority s)) =
        filter (\<lambda>t. priority t = p) (todos s)" for p
  proof -
    have eq: "(\<lambda>t. priority t = p) = (\<lambda>t. ?f t = - priorityOrder p)"
      by (simp add: priorityOrder_inj)
    have "filter (\<lambda>t. ?f t = - priorityOrder p) (sort_key ?f (todos s)) =
          filter (\<lambda>t. ?f t = - priorityOrder p) (todos s)"
      by (rule sort_key_stable)
    then show ?thesis
      unfolding sortTodosByPriority_key eq .
  qed
  have frame: "sortTodosByPriority s = s\<lparr> todos := todos (sortTodosByPriority s) \<rparr>"
    by (simp add: sortTodosByPriority_def)
  from perm desc stable frame show ?thesis by blast
qed

text \<open>
  C10. \<open>resetAllData\<close> leaves \<open>theme\<close>, \<open>todoFilter\<close>, \<open>selectedPriority\<close>, \<open>showUserForm\<close>,
  \<open>counter\<close> and \<open>currentTime\<close> as they were, while \<open>resetToDefaults\<close> sets the theme to
  \<open>light\<close>, the filter to \<open>all\<close> and the priority to \<open>medium\<close>.
\<close>

theorem resetAllData_frame:
  "theme (resetAllData s) = theme s \<and> todoFilter (resetAllData s) = todoFilter s \<and>
   selectedPriority (resetAllData s) = selectedPriority s \<and>
   showUserForm (resetAllData s) = showUserForm s \<and> counter (resetAllData s) = counter s \<and>
   currentTime (resetAllData s) = currentTime s \<and>
   theme (resetToDefaults s) = str ''light'' \<and> todoFilter (resetToDefaults s) = FilterAll \<and>
   selectedPriority (resetToDefaults s) = Medium"
  by (simp add: resetAllData_def resetToDefaults_def updateStatistics_def)

section \<open>Deleting a user\<close>









lemma users_seeded:
  "users seeded =
     [ \<lparr> user_id = 1, name = str ''John Doe'', email = str ''john@example.com'',
         isActive = True \<rparr>,
       \<lparr> user_id = 2, name = str ''Jane Smith'', email = str ''jane@example.com'',
         isActive = False \<rparr>,
       \<lparr> user_id = 3, name = str ''Bob Johnson'', email = str ''bob@example.com'',
         isActive = True \<rparr>,
       \<lparr> user_id = 4, name = str ''Alice Brown'', email = str ''alice@example.com'',
         isActive = True \<rparr>,
       \<lparr> user_id = 5, name = str ''Charlie Wilson'',
         email = str ''charlie@example.com'', isActive = False \<rparr> ]"
  by (simp add: seeded_def ngOnInit_def loadInitialTodos_def loadInitialUsers_def
      updateStatistics_def)


section \<open>Adding a user\<close>

lemma emailChar_dot: "emailChar 46"
  by (simp add: emailChar_def isWhiteSpace_def)

lemma not_emailChar_at: "\<not> emailChar 64"
  by (simp add: emailChar_def)

lemma isValidEmail_iff:
  "isValidEmail e \<longleftrightarrow>
     (\<exists>l d t. e = l @ 64 # d @ 46 # t \<and> l \<noteq> [] \<and> d \<noteq> [] \<and> t \<noteq> [] \<and>
              list_all emailChar (l @ d @ t))"
proof
  assume v: "isValidEmail e"
  define l where "l = takeWhile emailChar e"
  from v obtain c domain where dw: "dropWhile emailChar e = c # domain"
    by (auto simp: isValidEmail_def split: list.splits)
  with v have c: "c = 64" and dom: "list_all emailChar domain"
    and dot: "46 \<in> set (butlast (tl domain))" and l: "l \<noteq> []"
    by (simp_all add: isValidEmail_def l_def)
  from dot obtain a b where ab: "butlast (tl domain) = a @ 46 # b"
    by (meson split_list)
  then have ne: "tl domain \<noteq> []" by auto
  then obtain x where x: "domain = x # tl domain" by (cases domain) auto
  from ne have "tl domain = butlast (tl domain) @ [last (tl domain)]" by simp
  with ab have tl: "tl domain = a @ 46 # b @ [last (tl domain)]" by simp
  have e: "e = l @ c # domain"
    unfolding l_def dw [symmetric] by simp
  have "e = l @ 64 # (x # a) @ 46 # (b @ [last (tl domain)])"
    using e c x tl by (metis append_Cons)
  moreover have "list_all emailChar l"
    unfolding l_def list_all_iff by (auto dest: set_takeWhileD)
  moreover have "list_all emailChar ((x # a) @ (b @ [last (tl domain)]))"
  proof -
    from x tl have "domain = (x # a) @ 46 # (b @ [last (tl domain)])" by simp
    with dom have "list_all emailChar ((x # a) @ 46 # (b @ [last (tl domain)]))" by simp
    then show ?thesis by (simp add: list_all_iff)
  qed
  ultimately show "\<exists>l d t. e = l @ 64 # d @ 46 # t \<and> l \<noteq> [] \<and> d \<noteq> [] \<and> t \<noteq> [] \<and>
              list_all emailChar (l @ d @ t)"
    using l by (intro exI [of _ l] exI [of _ "x # a"] exI [of _ "b @ [last (tl domain)]"]) simp
next
  assume "\<exists>l d t. e = l @ 64 # d @ 46 # t \<and> l \<noteq> [] \<and> d \<noteq> [] \<and> t \<noteq> [] \<and>
              list_all emailChar (l @ d @ t)"
  then obtain l d t where e: "e = l @ 64 # d @ 46 # t" and ne: "l \<noteq> []" "d \<noteq> []" "t \<noteq> []"
    and cls: "list_all emailChar l" "list_all emailChar d" "list_all emailChar t"
    by auto
  from cls(1) have tw: "takeWhile emailChar e = l" and dw: "dropWhile emailChar e = 64 # d @ 46 # t"
    unfolding e by (simp_all add: list_all_iff not_emailChar_at)
  from ne have "butlast (tl (d @ 46 # t)) = tl d @ 46 # butlast t"
    by (cases d) (simp_all add: butlast_append)
  with ne cls show "isValidEmail e"
    by (simp add: isValidEmail_def tw dw emailChar_dot)
qed

text \<open>
  C4. \<open>addUser\<close> rejects without touching \<open>users\<close>, \<open>statistics\<close> or \<open>showUserForm\<close>: when the
  trimmed name or the trimmed email is empty, the only change is that \<open>errorMessage\<close> becomes
  "Name and email are required"; otherwise, when the email as passed does not match the
  expression of \<open>isValidEmail\<close>, the only change is that \<open>errorMessage\<close> becomes "Please enter
  a valid email address".
\<close>

theorem addUser_rejects:
  "(trim nm = [] \<or> trim em = [] \<longrightarrow>
      addUser nm em s = s\<lparr> errorMessage := str ''Name and email are required'' \<rparr>) \<and>
   (trim nm \<noteq> [] \<and> trim em \<noteq> [] \<and> \<not> isValidEmail em \<longrightarrow>
      addUser nm em s = s\<lparr> errorMessage := str ''Please enter a valid email address'' \<rparr>) \<and>
   (trim nm = [] \<or> trim em = [] \<or> \<not> isValidEmail em \<longrightarrow>
      users (addUser nm em s) = users s \<and> statistics (addUser nm em s) = statistics s \<and>
      showUserForm (addUser nm em s) = showUserForm s)"
  by (auto simp: addUser_def)

theorem addUser_rejects_witness:
  "trim (str ''   '') = [] \<and>
   addUser (str ''   '') (str ''email@example.com'') seeded =
     seeded\<lparr> errorMessage := str ''Name and email are required'' \<rparr> \<and>
   trim (str ''Name'') \<noteq> [] \<and> trim (str ''user@com'') \<noteq> [] \<and> \<not> isValidEmail (str ''user@com'') \<and>
   addUser (str ''Name'') (str ''user@com'') seeded =
     seeded\<lparr> errorMessage := str ''Please enter a valid email address'' \<rparr> \<and>
   users (addUser (str ''Name'') (str ''user@com'') seeded) = users seeded"
proof -
  have a: "trim (str ''   '') = []"
    by (simp add: trim_def str_def isWhiteSpace_def)
  have b: "trim (str ''Name'') \<noteq> []" "trim (str ''user@com'') \<noteq> []"
    by (simp_all add: trim_def str_def isWhiteSpace_def)
  have c: "\<not> isValidEmail (str ''user@com'')"
    by (simp add: isValidEmail_def str_def emailChar_def isWhiteSpace_def)
  show ?thesis
    using a b c addUser_rejects [of "str ''   ''" "str ''email@example.com''" seeded]
      addUser_rejects [of "str ''Name''" "str ''user@com''" seeded]
    by simp
qed

text \<open>
  C3. The call \<open>addUser('  Test User  ', '  test@example.com  ')\<close> of the unit test: both
  trimmed forms are non-empty and the trimmed email has the shape of an address, yet the
  call is rejected with "Please enter a valid email address" and appends nothing, because
  \<open>isValidEmail\<close> is applied to the email before it is trimmed.
\<close>

theorem addUser_padded_email_rejected:
  "trim (str ''  Test User  '') = str ''Test User'' \<and>
   trim (str ''  test@example.com  '') = str ''test@example.com'' \<and>
   isValidEmail (str ''test@example.com'') \<and>
   addUser (str ''  Test User  '') (str ''  test@example.com  '') s =
     s\<lparr> errorMessage := str ''Please enter a valid email address'' \<rparr>"
proof -
  have "trim (str ''  Test User  '') = str ''Test User''"
    "trim (str ''  test@example.com  '') = str ''test@example.com''"
    by (simp_all add: trim_def str_def isWhiteSpace_def)
  moreover have "isValidEmail (str ''test@example.com'')"
    by (simp add: isValidEmail_def str_def emailChar_def isWhiteSpace_def)
  moreover have "\<not> isValidEmail (str ''  test@example.com  '')"
    by (simp add: isValidEmail_def str_def emailChar_def isWhiteSpace_def)
  ultimately show ?thesis
    by (simp add: addUser_def) (simp add: str_def)
qed

section \<open>Statistics on arbitrary values\<close>


lemma propIs_null: "propIs test k JNull = Inl TypeError"
  by (simp add: propIs_def)


lemma countWhere_map:
  "\<forall>x\<in>set xs. p (f x) = Inr (q x) \<Longrightarrow> countWhere p (map f xs) = Inr (length (filter q xs))"
  by (induction xs) auto

lemma isActive_ofUser: "propIs truthy (str ''isActive'') (ofUser u) = Inr (isActive u)"
  by (simp add: propIs_def ofUser_def str_def)

lemma completed_ofTodo: "propIs truthy (str ''completed'') (ofTodo t) = Inr (completed t)"
  by (simp add: propIs_def ofTodo_def str_def)

lemma priority_ofTodo:
  "propIs (\<lambda>p. p = JStr (str ''high'')) (str ''priority'') (ofTodo t) = Inr (priority t = High)"
  by (cases "priority t") (simp_all add: propIs_def ofTodo_def str_def)

lemma updateStatisticsAny_reify:
  "updateStatisticsAny (reify s) = Inr (reify (updateStatistics s))"
proof -
  have "countWhere (propIs truthy (str ''isActive'')) (map ofUser (users s)) =
          Inr (length (filter isActive (users s)))"
    by (rule countWhere_map) (simp add: isActive_ofUser)
  moreover have "countWhere (propIs truthy (str ''completed'')) (map ofTodo (todos s)) =
          Inr (length (filter completed (todos s)))"
    by (rule countWhere_map) (simp add: completed_ofTodo)
  moreover have "countWhere (propIs (\<lambda>p. p = JStr (str ''high'')) (str ''priority''))
          (map ofTodo (todos s)) = Inr (length (filter (\<lambda>t. priority t = High) (todos s)))"
    by (rule countWhere_map) (simp add: priority_ofTodo)
  ultimately show ?thesis
    by (simp add: updateStatisticsAny_def reify_def updateStatistics_def)
qed




section \<open>Import and the error message\<close>

lemma parse_users_null:
  "JSON_parse (str ''{\"users\":[null]}'') = Some (JObj [(str ''users'', JArr [JNull])])"
  by code_simp

lemma updateStatisticsAny_null: "users r = JNull # us \<Longrightarrow> updateStatisticsAny r = Inl TypeError"
  by (simp add: updateStatisticsAny_def propIs_def)

lemma importData_null_user:
  "importData P (str ''{\"users\":[null]}'') r =
     r\<lparr> users := [JNull], errorMessage := str ''Invalid JSON data for import'' \<rparr>"
  by (simp add: importData_def importBlock_def parse_users_null str_eq_iff
      assignUsers_def assignTodos_def assignTheme_def updateStatisticsAny_null)

lemma parse_users_todos_null:
  "JSON_parse (str ''{\"users\":[],\"todos\":[null]}'') =
     Some (JObj [(str ''users'', JArr []), (str ''todos'', JArr [JNull])])"
  by code_simp
text \<open>
  C2. The text \<open>{"users":[],"todos":[null]}\<close> is valid JSON. \<open>importData\<close> replaces \<open>users\<close> by
  the empty array, then \<open>todo.createdAt\<close> throws on the \<open>null\<close> element, and the \<open>catch\<close> block
  reports "Invalid JSON data for import": the message is set and \<open>users\<close> has changed.
\<close>

theorem importData_partial_mutation:
  "importData P (str ''{\"users\":[],\"todos\":[null]}'') r =
     r\<lparr> users := [], errorMessage := str ''Invalid JSON data for import'' \<rparr>"
  by (simp add: importData_def importBlock_def parse_users_todos_null str_eq_iff
      assignUsers_def assignTodos_def importTodo_def)

lemma errorMessage_updateFirst_users [simp]:
  "errorMessage (updateStatistics s) = errorMessage s"
  by (simp add: updateStatistics_def)

lemma importData_completed:
  "snd (importBlock P jsonData r) = None \<Longrightarrow> errorMessage (importData P jsonData r) = []"
  by (auto simp: importData_def importBlock_def Let_def
      split: option.splits sum.splits prod.splits if_splits)

lemma importData_thrown:
  "snd (importBlock P jsonData r) = Some e \<Longrightarrow>
   errorMessage (importData P jsonData r) = str ''Invalid JSON data for import''"
  by (auto simp: importData_def split: option.splits prod.splits)

text \<open>
  C6, as amended. \<open>errorMessage\<close> is cleared by a successful \<open>addUser\<close>, a successful
  \<open>addTodo\<close>, an \<open>importData\<close> whose \<open>try\<close> block completes, \<open>resetAllData\<close> and
  \<open>resetToDefaults\<close>, whichever operation had set it; every other operation leaves it as it
  is, whether it changes the component or not.
\<close>

theorem errorMessage_cleared_by:
  "(trim nm \<noteq> [] \<and> trim em \<noteq> [] \<and> isValidEmail em \<longrightarrow> errorMessage (addUser nm em s) = []) \<and>
   (trim (newTodoTitle s) \<noteq> [] \<longrightarrow> errorMessage (addTodo now s) = []) \<and>
   (snd (importBlock P jsonData r) = None \<longrightarrow> errorMessage (importData P jsonData r) = []) \<and>
   errorMessage (resetAllData s) = [] \<and>
   errorMessage (resetToDefaults s) = [] \<and>
   errorMessage (deleteUser i s) = errorMessage s \<and>
   errorMessage (toggleUserStatus i s) = errorMessage s \<and>
   errorMessage (selectUser u s) = errorMessage s \<and>
   errorMessage (toggleTodo i s) = errorMessage s \<and>
   errorMessage (deleteTodo i s) = errorMessage s \<and>
   errorMessage (updateTodoPriority i p s) = errorMessage s \<and>
   errorMessage (clearCompletedTodos s) = errorMessage s \<and>
   errorMessage (toggleTheme s) = errorMessage s \<and>
   errorMessage (markAllTodosComplete s) = errorMessage s \<and>
   errorMessage (markAllTodosIncomplete s) = errorMessage s \<and>
   errorMessage (activateAllUsers s) = errorMessage s \<and>
   errorMessage (deactivateAllUsers s) = errorMessage s \<and>
   errorMessage (sortUsersByName P s) = errorMessage s \<and>
   errorMessage (sortUsersByEmail P s) = errorMessage s \<and>
   errorMessage (sortTodosByPriority s) = errorMessage s \<and>
   errorMessage (sortTodosByDate s) = errorMessage s \<and>
   errorMessage (tick now s) = errorMessage s \<and>
   errorMessage (ngOnInit s) = errorMessage s"
proof -
  have "errorMessage (deleteUser i s) = errorMessage s"
    by (simp add: deleteUser_def Let_def split: option.split)
  moreover have "errorMessage (toggleUserStatus i s) = errorMessage s"
    "errorMessage (toggleTodo i s) = errorMessage s"
    "errorMessage (updateTodoPriority i p s) = errorMessage s"
    by (simp_all add: toggleUserStatus_def toggleTodo_def updateTodoPriority_def
        split: option.split)
  moreover have "errorMessage (deleteTodo i s) = errorMessage s"
    by (simp add: deleteTodo_def Let_def)
  moreover have "errorMessage (ngOnInit s) = errorMessage s"
    by (simp add: ngOnInit_def loadInitialTodos_def loadInitialUsers_def initializeData_def
        loadTheme_def split: option.split)
  moreover have "errorMessage (resetToDefaults s) = []"
    by (simp add: resetToDefaults_def)
  moreover have "snd (importBlock P jsonData r) = None \<longrightarrow>
      errorMessage (importData P jsonData r) = []"
    by (simp add: importData_completed)
  ultimately show ?thesis
    by (simp add: addUser_def addTodo_def Let_def resetAllData_def selectUser_def
        clearCompletedTodos_def toggleTheme_def saveTheme_def markAllTodosComplete_def
        markAllTodosIncomplete_def activateAllUsers_def deactivateAllUsers_def
        sortUsersByName_def sortUsersByEmail_def sortTodosByPriority_def sortTodosByDate_def
        tick_def)
qed

text \<open>
  C6 as stated fails: after a rejected \<open>addUser\<close>, a \<open>deleteUser\<close> that removes a user and a
  \<open>toggleUserStatus\<close> that flips one leave the message in place, while an \<open>addTodo\<close>, an
  operation of another category, clears it.
\<close>

theorem errorMessage_survives_deleteUser:
  "errorMessage (addUser [] [] seeded) = str ''Name and email are required'' \<and>
   length (users (addUser [] [] seeded)) = 5 \<and>
   length (users (deleteUser 1 (addUser [] [] seeded))) = 4 \<and>
   errorMessage (deleteUser 1 (addUser [] [] seeded)) = str ''Name and email are required'' \<and>
   errorMessage (toggleUserStatus 2 (addUser [] [] seeded)) = str ''Name and email are required'' \<and>
   errorMessage (addTodo 0 ((addUser [] [] seeded)\<lparr> newTodoTitle := str ''Buy milk'' \<rparr>)) = []"
proof -
  have a: "addUser [] [] seeded = seeded\<lparr> errorMessage := str ''Name and email are required'' \<rparr>"
    by (simp add: addUser_def trim_def)
  have "users (deleteUser 1 (addUser [] [] seeded)) = tl (users seeded)"
    unfolding a
    by (simp add: deleteUser_def findIndex_def splice1_def users_seeded Let_def
        updateStatistics_def split: option.split)
  then have "length (users (deleteUser 1 (addUser [] [] seeded))) = 4"
    by (simp add: users_seeded)
  moreover have "errorMessage (deleteUser 1 (addUser [] [] seeded)) =
      str ''Name and email are required''"
    unfolding a by (simp add: deleteUser_def Let_def split: option.split)
  moreover have "errorMessage (toggleUserStatus 2 (addUser [] [] seeded)) =
      str ''Name and email are required''"
    unfolding a by (simp add: toggleUserStatus_def split: option.split)
  moreover have "trim (str ''Buy milk'') \<noteq> []"
    by (simp add: trim_def str_def isWhiteSpace_def)
  then have "errorMessage (addTodo 0 ((addUser [] [] seeded)\<lparr> newTodoTitle := str ''Buy milk'' \<rparr>)) = []"
    by (simp add: addTodo_def Let_def)
  ultimately show ?thesis
    using a by (simp add: users_seeded)
qed

section \<open>Uniqueness of user ids\<close>



























lemma thePriority_priorityName: "thePriority (JStr (priorityName p)) = Some p"
  by (cases p) (simp_all add: str_eq_iff)






lemma assign_undefined:
  "assignUsers JUndefined r = r" "assignTodos P JUndefined r = Inr r" "assignTheme JUndefined r = r"
  by (simp_all add: assignUsers_def assignTodos_def assignTheme_def)

lemma assignTheme_reify:
  "th \<noteq> [] \<Longrightarrow> assignTheme (JStr th) (reify s) = reify (s\<lparr> theme := th \<rparr>)"
  by (simp add: assignTheme_def reify_def)





section \<open>The theorems at concrete inputs\<close>





lemma parse_empty_object: "JSON_parse (str ''{}'') = Some (JObj [])"
  by code_simp

theorem errorMessage_cleared_by_witness:
  "trim (str ''New User'') \<noteq> [] \<and> trim (str ''new@example.com'') \<noteq> [] \<and>
   isValidEmail (str ''new@example.com'') \<and>
   errorMessage (addUser [] [] seeded) \<noteq> [] \<and>
   errorMessage (addUser (str ''New User'') (str ''new@example.com'') (addUser [] [] seeded)) = [] \<and>
   trim (newTodoTitle ((addUser [] [] seeded)\<lparr> newTodoTitle := str ''Buy milk'' \<rparr>)) \<noteq> [] \<and>
   errorMessage (addTodo 0 ((addUser [] [] seeded)\<lparr> newTodoTitle := str ''Buy milk'' \<rparr>)) = [] \<and>
   snd (importBlock examplePlatform (str ''{}'') (reify (addUser [] [] seeded))) = None \<and>
   errorMessage (importData examplePlatform (str ''{}'') (reify (addUser [] [] seeded))) = [] \<and>
   errorMessage (deleteUser 1 (addUser [] [] seeded)) = errorMessage (addUser [] [] seeded)"
proof -
  let ?s = "addUser [] [] seeded"
  have h1: "trim (str ''New User'') \<noteq> [] \<and> trim (str ''new@example.com'') \<noteq> [] \<and>
      isValidEmail (str ''new@example.com'')"
    by (simp add: trim_def str_def isWhiteSpace_def isValidEmail_def emailChar_def)
  have h2: "trim (newTodoTitle (?s\<lparr> newTodoTitle := str ''Buy milk'' \<rparr>)) \<noteq> []"
    by (simp add: trim_def str_def isWhiteSpace_def)
  have h3: "snd (importBlock examplePlatform (str ''{}'') (reify ?s)) = None"
    by (simp add: importBlock_def parse_empty_object assign_undefined updateStatisticsAny_reify)
  have e: "errorMessage ?s \<noteq> []"
    by (simp add: addUser_def trim_def str_def)
  note t1 = errorMessage_cleared_by [where nm = "str ''New User''" and em = "str ''new@example.com''"
      and s = ?s and i = 1]
  note t2 = errorMessage_cleared_by [where s = "?s\<lparr> newTodoTitle := str ''Buy milk'' \<rparr>" and now = 0]
  note t3 = errorMessage_cleared_by [where P = examplePlatform and jsonData = "str ''{}''"
      and r = "reify ?s"]
  from t1 h1 have "errorMessage (addUser (str ''New User'') (str ''new@example.com'') ?s) = []"
    and "errorMessage (deleteUser 1 ?s) = errorMessage ?s"
    by blast+
  moreover from t2 h2 have "errorMessage (addTodo 0 (?s\<lparr> newTodoTitle := str ''Buy milk'' \<rparr>)) = []"
    by blast
  moreover from t3 h3 have "errorMessage (importData examplePlatform (str ''{}'') (reify ?s)) = []"
    by blast
  ultimately show ?thesis
    using h1 h2 h3 e by blast
qed

section \<open>Parsing what \<open>JSON.stringify\<close> wrote\<close>

subsection \<open>Reading back a numeral\<close>

lemma natText_digits: "list_all isDigit (natText n)"
proof (induction n rule: natText.induct)
  case (1 n)
  show ?case
  proof (cases "n < 10")
    case True
    then show ?thesis by (subst natText.simps) (simp add: isDigit_def)
  next
    case False
    have "n mod 10 < 10" by simp
    then have "isDigit (48 + n mod 10)" by (simp add: isDigit_def)
    with False 1 show ?thesis by (subst natText.simps) simp
  qed
qed

lemma natText_nonempty: "natText n \<noteq> []"
  by (subst natText.simps) simp

lemma digitsValue_snoc: "digitsValue (ds @ [d]) = 10 * digitsValue ds + (d - 48)"
  by (simp add: digitsValue_def)

lemma digitsValue_natText: "digitsValue (natText n) = n"
proof (induction n rule: natText.induct)
  case (1 n)
  show ?case
  proof (cases "n < 10")
    case True
    then show ?thesis by (subst natText.simps) (simp add: digitsValue_def)
  next
    case False
    with 1 show ?thesis by (subst natText.simps) (simp add: digitsValue_snoc)
  qed
qed

lemma hd_natText: "0 < n \<Longrightarrow> hd (natText n) \<noteq> 48"
proof (induction n rule: natText.induct)
  case (1 n)
  show ?case
  proof (cases "n < 10")
    case True
    with 1(2) show ?thesis by (subst natText.simps) simp
  next
    case False
    then have "0 < n div 10" by simp
    with False 1 have "hd (natText (n div 10)) \<noteq> 48" by simp
    with False show ?thesis
      by (subst natText.simps) (simp add: natText_nonempty)
  qed
qed

lemma natText_zero: "natText 0 = [48]"
  by (subst natText.simps) simp

lemma natText_no_leading_zero: "\<not> (hd (natText n) = 48 \<and> length (natText n) > 1)"
proof (cases "n = 0")
  case True
  then show ?thesis by (simp add: natText_zero)
next
  case False
  then show ?thesis using hd_natText [of n] by simp
qed


lemma takeWhile_digits:
  "delimited rest \<Longrightarrow> list_all isDigit ds \<Longrightarrow> takeWhile isDigit (ds @ rest) = ds"
  by (cases rest) (auto simp: delimited_def isDigit_def list_all_iff takeWhile_append)

lemma dropWhile_digits:
  "delimited rest \<Longrightarrow> list_all isDigit ds \<Longrightarrow> dropWhile isDigit (ds @ rest) = rest"
  by (cases rest) (auto simp: delimited_def isDigit_def list_all_iff dropWhile_append)

lemma scanFraction_delimited: "delimited rest \<Longrightarrow> scanFraction rest = Some ([], rest)"
  by (cases rest) (auto simp: delimited_def scanFraction_def)

lemma scanExponent_delimited: "delimited rest \<Longrightarrow> scanExponent rest = Some (0, rest)"
  by (cases rest) (auto simp: delimited_def scanExponent_def)

lemma scanUnsigned_natText:
  assumes "delimited rest"
  shows "scanUnsigned neg (natText n @ rest) =
    Some (of_int ((if neg then - 1 else 1) * int n), rest)"
  using assms natText_no_leading_zero [of n]
  by (simp add: scanUnsigned_def Let_def takeWhile_digits dropWhile_digits natText_digits
      natText_nonempty scanFraction_delimited scanExponent_delimited numberValue_def
      digitsValue_natText)

lemma scanNumber_intText:
  assumes "delimited rest"
  shows "scanNumber (intText i @ rest) = Some (of_int i, rest)"
proof (cases "i < 0")
  case True
  then show ?thesis
    by (simp add: intText_def scanNumber_def scanUnsigned_natText [OF assms])
next
  case False
  obtain c cs where c: "natText (nat i) = c # cs"
    using natText_nonempty [of "nat i"] by (cases "natText (nat i)") auto
  have "isDigit c"
    using natText_digits [of "nat i"] c by simp
  then have "c \<noteq> 45" by (auto simp: isDigit_def)
  then have "scanNumber (natText (nat i) @ rest) = scanUnsigned False (natText (nat i) @ rest)"
    by (simp add: scanNumber_def c)
  with False show ?thesis
    by (simp add: intText_def scanUnsigned_natText [OF assms])
qed

lemma intText_first:
  "\<exists>c cs. intText i = c # cs \<and> (c = 45 \<or> isDigit c)"
proof (cases "i < 0")
  case True
  then show ?thesis by (simp add: intText_def)
next
  case False
  obtain c cs where c: "natText (nat i) = c # cs"
    using natText_nonempty [of "nat i"] by (cases "natText (nat i)") auto
  have "isDigit c"
    using natText_digits [of "nat i"] c by simp
  with False c show ?thesis by (simp add: intText_def)
qed

subsection \<open>Reading back a quoted string\<close>

lemma hexValue_hexDigit: "n < 16 \<Longrightarrow> hexValue (hexDigit n) = Some n"
  by (auto simp: hexValue_def hexDigit_def)

lemma hex_digits_value:
  "4096 * (c div 4096) + 256 * (c div 256 mod 16) + 16 * (c div 16 mod 16) + c mod 16 = (c::nat)"
proof -
  have e2: "c div 256 = c div 16 div 16" and e3: "c div 4096 = c div 256 div 16"
    by (simp_all add: div_mult2_eq [symmetric])
  have 1: "c = 16 * (c div 16) + c mod 16" by simp
  have 2: "c div 16 = 16 * (c div 256) + c div 16 mod 16" unfolding e2 by simp
  have 3: "c div 256 = 16 * (c div 4096) + c div 256 mod 16" unfolding e3 by simp
  from 1 2 3 show ?thesis by linarith
qed

lemma hex4_unicodeEscape:
  assumes "c < 65536"
  shows "hex4 (hexDigit (c div 4096)) (hexDigit (c div 256 mod 16)) (hexDigit (c div 16 mod 16))
           (hexDigit (c mod 16)) = Some c"
proof -
  from assms have "c div 4096 < 16" by simp
  then show ?thesis
    by (simp add: hex4_def hexValue_hexDigit hex_digits_value)
qed

lemma scanString_unicodeEscape:
  "c < 65536 \<Longrightarrow> scanString (unicodeEscape c @ cs) = consChar c (scanString cs)"
  by (simp add: unicodeEscape_def hex4_unicodeEscape)

lemma scanString_escape:
  "escapeOf c = Some e \<Longrightarrow> scanString (92 # e # cs) = consChar c (scanString cs)"
  by (auto simp: escapeOf_def escapeChar_def split: if_splits)

lemma scanString_plain:
  "escapeOf c = None \<Longrightarrow> \<not> c < 32 \<Longrightarrow> scanString (c # cs) = consChar c (scanString cs)"
  by (auto simp: escapeOf_def split: if_splits)

lemma escapeOf_surrogate: "isLeadSurrogate c \<or> isTrailSurrogate c \<Longrightarrow> escapeOf c = None \<and> \<not> c < 32 \<and> c < 65536"
  by (auto simp: isLeadSurrogate_def isTrailSurrogate_def escapeOf_def)

lemma scanString_quote: "scanString (34 # rest) = Some ([], rest)"
  by simp

lemma scanString_quoteChars: "scanString (quoteChars s @ 34 # rest) = Some (s, rest)"
proof (induction s rule: quoteChars.induct)
  case 1
  then show ?case by simp
next
  case (2 c cs)
  show ?case
  proof (cases "escapeOf c")
    case (Some e)
    with 2 show ?thesis
      by (simp add: scanString_escape consChar_def del: scanString.simps)
  next
    case None
    note n = this
    show ?thesis
    proof (cases "c < 32")
      case True
      with n 2 show ?thesis
        by (simp add: scanString_unicodeEscape consChar_def del: scanString.simps)
    next
      case False
      note f = this
      show ?thesis
      proof (cases "isLeadSurrogate c")
        case True
        note l = this
        then have c: "c < 65536" using escapeOf_surrogate [of c] by simp
        show ?thesis
        proof (cases cs)
          case Nil
          with n f l c show ?thesis
            by (simp add: scanString_unicodeEscape scanString_quote consChar_def
                del: scanString.simps)
        next
          case (Cons d ds)
          show ?thesis
          proof (cases "isTrailSurrogate d")
            case True
            then have d: "escapeOf d = None" "\<not> d < 32"
              using escapeOf_surrogate [of d] by simp_all
            from 2 n f l Cons True d show ?thesis
              by (simp add: scanString_plain consChar_def del: scanString.simps)
          next
            case False
            from 2 n f l Cons False c show ?thesis
              by (simp add: scanString_unicodeEscape consChar_def del: scanString.simps)
          qed
        qed
      next
        case False
        note nl = this
        show ?thesis
        proof (cases "isTrailSurrogate c")
          case True
          then have c: "c < 65536" using escapeOf_surrogate [of c] by simp
          from 2 n f nl True c show ?thesis
            by (simp add: scanString_unicodeEscape consChar_def del: scanString.simps)
        next
          case False
          from 2 n f nl False show ?thesis
            by (simp add: scanString_plain consChar_def del: scanString.simps)
        qed
      qed
    qed
  qed
qed

subsection \<open>Reading one token\<close>

lemma parseFrom_Nil: "parseFrom st [] = Some st"
  by (simp add: parseFrom_def)

lemma parseFrom_token:
  "lex text = consToken t (lex rest) \<Longrightarrow>
   parseFrom st text = Option.bind (step st t) (\<lambda>st'. parseFrom st' rest)"
  by (cases "lex rest"; cases "step st t") (simp_all add: parseFrom_def consToken_def)

lemma parseFrom_space: "isJsonSpace c \<Longrightarrow> parseFrom st (c # cs) = parseFrom st cs"
  by (simp add: parseFrom_def)

lemma parseFrom_spaces: "list_all isJsonSpace w \<Longrightarrow> parseFrom st (w @ cs) = parseFrom st cs"
  by (induction w) (simp_all add: parseFrom_space)

lemma parseFrom_newline: "parseFrom st (10 # cs) = parseFrom st cs"
  by (simp add: parseFrom_space isJsonSpace_def)

lemma parseFrom_blank: "parseFrom st (32 # cs) = parseFrom st cs"
  by (simp add: parseFrom_space isJsonSpace_def)

lemma parseFrom_punctuation:
  "parseFrom st (123 # cs) = Option.bind (step st TLBrace) (\<lambda>st'. parseFrom st' cs)"
  "parseFrom st (125 # cs) = Option.bind (step st TRBrace) (\<lambda>st'. parseFrom st' cs)"
  "parseFrom st (91 # cs) = Option.bind (step st TLBracket) (\<lambda>st'. parseFrom st' cs)"
  "parseFrom st (93 # cs) = Option.bind (step st TRBracket) (\<lambda>st'. parseFrom st' cs)"
  "parseFrom st (58 # cs) = Option.bind (step st TColon) (\<lambda>st'. parseFrom st' cs)"
  "parseFrom st (44 # cs) = Option.bind (step st TComma) (\<lambda>st'. parseFrom st' cs)"
  by (rule parseFrom_token, simp add: isJsonSpace_def)+

lemma parseFrom_string:
  "parseFrom st (quoteJSON s @ cs) =
     Option.bind (step st (TValue (JStr s))) (\<lambda>st'. parseFrom st' cs)"
  by (rule parseFrom_token) (simp add: quoteJSON_def isJsonSpace_def scanString_quoteChars)

lemma parseFrom_int:
  assumes "delimited cs"
  shows "parseFrom st (intText i @ cs) =
     Option.bind (step st (TValue (JNum (of_int i)))) (\<lambda>st'. parseFrom st' cs)"
proof (rule parseFrom_token)
  from intText_first [of i] obtain c r where c: "intText i = c # r" "c = 45 \<or> isDigit c"
    by auto
  from c(2) have "\<not> isJsonSpace c" "c \<noteq> 123" "c \<noteq> 125" "c \<noteq> 91" "c \<noteq> 93" "c \<noteq> 58"
    "c \<noteq> 44" "c \<noteq> 34"
    by (auto simp: isJsonSpace_def isDigit_def)
  with c(2) have "lex (c # r @ cs) =
      (case scanNumber (c # r @ cs) of
         None \<Rightarrow> None
       | Some (x, rest) \<Rightarrow> consToken (TValue (JNum x)) (lex rest))"
    by simp
  moreover have "scanNumber (c # r @ cs) = Some (of_int i, cs)"
    using scanNumber_intText [OF assms, of i] c(1) by simp
  ultimately show "lex (intText i @ cs) = consToken (TValue (JNum (of_int i))) (lex cs)"
    by (simp add: c(1))
qed

lemma parseFrom_literal:
  "parseFrom st (str ''null'' @ cs) =
     Option.bind (step st (TValue JNull)) (\<lambda>st'. parseFrom st' cs)"
  "parseFrom st (str ''true'' @ cs) =
     Option.bind (step st (TValue (JBool True))) (\<lambda>st'. parseFrom st' cs)"
  "parseFrom st (str ''false'' @ cs) =
     Option.bind (step st (TValue (JBool False))) (\<lambda>st'. parseFrom st' cs)"
  by (rule parseFrom_token, simp add: str_def isJsonSpace_def isDigit_def)+

lemma step_value:
  "e = Value \<or> e = ValueOrClose \<Longrightarrow> step (Parsing fs e) (TValue v) = deliver v fs"
  by auto

lemma step_open:
  "e = Value \<or> e = ValueOrClose \<Longrightarrow>
   step (Parsing fs e) TLBracket = Some (Parsing (ArrayFrame [] # fs) ValueOrClose)"
  "e = Value \<or> e = ValueOrClose \<Longrightarrow>
   step (Parsing fs e) TLBrace = Some (Parsing (ObjectFrame [] None # fs) KeyOrClose)"
  by auto

subsection \<open>Reading back the text of a value\<close>

lemma delimited_simps: "delimited []" "delimited (44 # cs)" "delimited (10 # cs)"
  by (simp_all add: delimited_def)

lemma serElements_delimited: "delimited rest \<Longrightarrow> delimited (serElements P indent False vs @ rest)"
  by (cases vs) (simp_all add: delimited_def)

lemma serMembers_delimited: "delimited rest \<Longrightarrow> delimited (serMembers P indent False ps @ rest)"
  by (induction ps) (simp_all add: delimited_def)

lemma serMembers_empty:
  "serMembers P indent first ps = [] \<Longrightarrow> jsonOfMembers P acc ps = acc"
  by (induction ps) (auto split: if_splits)

lemma spaces_indent: "list_all isJsonSpace indent \<Longrightarrow> list_all isJsonSpace (indent @ [32, 32])"
  by (simp add: isJsonSpace_def)

lemma parse_ser:
  shows "integersOnly v \<Longrightarrow> e = Value \<or> e = ValueOrClose \<Longrightarrow> delimited rest \<Longrightarrow>
         list_all isJsonSpace indent \<Longrightarrow>
         parseFrom (Parsing fs e) (ser P indent v @ rest) =
           Option.bind (deliver (jsonOf P v) fs) (\<lambda>st. parseFrom st rest)"
    and "integersOnlyElements vs \<Longrightarrow> delimited rest \<Longrightarrow> list_all isJsonSpace indent \<Longrightarrow>
         parseFrom (Parsing (ArrayFrame es # fs) (if first then ValueOrClose else CommaOrClose))
             (serElements P indent first vs @ rest) =
           parseFrom (Parsing (ArrayFrame (es @ jsonOfElements P vs) # fs)
             (if first \<and> vs = [] then ValueOrClose else CommaOrClose)) rest"
    and "integersOnlyMembers ps \<Longrightarrow> delimited rest \<Longrightarrow> list_all isJsonSpace indent \<Longrightarrow>
         parseFrom (Parsing (ObjectFrame acc None # fs) (if first then KeyOrClose else CommaOrClose))
             (serMembers P indent first ps @ rest) =
           parseFrom (Parsing (ObjectFrame (jsonOfMembers P acc ps) None # fs)
             (if first \<and> serMembers P indent first ps = [] then KeyOrClose else CommaOrClose)) rest"
proof (induction P indent v and P indent first vs and P indent first ps
    arbitrary: fs e rest and fs es rest and fs acc rest
    rule: ser_serElements_serMembers.induct)
  case (1 P indent)
  then show ?case by (simp add: parseFrom_literal step_value)
next
  case (2 P indent)
  then show ?case by (simp add: parseFrom_literal step_value)
next
  case (3 P indent b)
  then show ?case by (simp add: parseFrom_literal step_value)
next
  case (4 P indent r)
  from "4.prems"(1) have i: "of_int \<lfloor>r\<rfloor> = r" and b: "\<bar>r\<bar> < 10 ^ 21"
    unfolding integersOnly.simps by blast+
  have t: "ser P indent (JNum r) = intText \<lfloor>r\<rfloor>"
    by (simp only: ser.simps numberText_def i b simp_thms if_True)
  have "parseFrom (Parsing fs e) (intText \<lfloor>r\<rfloor> @ rest) =
      Option.bind (deliver (JNum (of_int \<lfloor>r\<rfloor>)) fs) (\<lambda>st. parseFrom st rest)"
    by (simp only: parseFrom_int [OF "4.prems"(3)] step_value [OF "4.prems"(2)])
  then show ?case
    by (simp only: t i jsonOf.simps)
next
  case (5 P indent s)
  then show ?case by (simp add: parseFrom_string step_value)
next
  case (6 P indent d)
  then show ?case
    by (cases d) (simp_all add: parseFrom_string parseFrom_literal step_value)
next
  case (7 P indent vs)
  note o = step_open(1) [OF "7.prems"(2), of fs]
  show ?case
  proof (cases "vs = []")
    case True
    then show ?thesis
      by (simp add: str_def parseFrom_punctuation o)
  next
    case False
    have "parseFrom (Parsing (ArrayFrame [] # fs) ValueOrClose)
            (serElements P (indent @ [32, 32]) True vs @ 10 # indent @ 93 # rest) =
          parseFrom (Parsing (ArrayFrame ([] @ jsonOfElements P vs) # fs) CommaOrClose)
            (10 # indent @ 93 # rest)"
      using "7.IH" [OF False, of "10 # indent @ 93 # rest" "[]" fs] "7.prems" False
      by (simp add: delimited_simps isJsonSpace_def)
    with False "7.prems" show ?thesis
      by (simp add: parseFrom_punctuation o parseFrom_newline parseFrom_spaces)
  qed
next
  case (8 P indent ps)
  note o = step_open(2) [OF "8.prems"(2), of fs]
  show ?case
  proof (cases "serMembers P (indent @ [32, 32]) True ps = []")
    case True
    then show ?thesis
      by (simp add: str_def parseFrom_punctuation o serMembers_empty)
  next
    case False
    have "parseFrom (Parsing (ObjectFrame [] None # fs) KeyOrClose)
            (serMembers P (indent @ [32, 32]) True ps @ 10 # indent @ 125 # rest) =
          parseFrom (Parsing (ObjectFrame (jsonOfMembers P [] ps) None # fs) CommaOrClose)
            (10 # indent @ 125 # rest)"
      using "8.IH"(1) [of "10 # indent @ 125 # rest" "[]" fs] "8.prems" False
      by (simp add: delimited_simps isJsonSpace_def)
    with False "8.prems" show ?thesis
      by (simp add: parseFrom_punctuation o parseFrom_newline parseFrom_spaces)
  qed
next
  case (9 P indent first)
  then show ?case by simp
next
  case (10 P indent first v vs)
  let ?rest = "serElements P indent False vs @ rest"
  have d: "delimited ?rest"
    using "10.prems" by (simp add: serElements_delimited)
  have v: "parseFrom (Parsing (ArrayFrame es # fs) e) (ser P indent v @ ?rest) =
      parseFrom (Parsing (ArrayFrame (es @ [jsonOf P v]) # fs) CommaOrClose) ?rest"
    if "e = Value \<or> e = ValueOrClose" for e
    using "10.IH"(1) [OF _ that d, of "ArrayFrame es # fs"] "10.prems" by simp
  have vs: "parseFrom (Parsing (ArrayFrame (es @ [jsonOf P v]) # fs) CommaOrClose) ?rest =
      parseFrom (Parsing (ArrayFrame ((es @ [jsonOf P v]) @ jsonOfElements P vs) # fs)
        CommaOrClose) rest"
    using "10.IH"(2) [of rest "es @ [jsonOf P v]" fs] "10.prems" by simp
  show ?case
  proof (cases first)
    case True
    with "10.prems" v [of ValueOrClose] vs show ?thesis
      by (simp add: parseFrom_newline parseFrom_spaces)
  next
    case False
    with "10.prems" v [of Value] vs show ?thesis
      by (simp add: parseFrom_punctuation parseFrom_newline parseFrom_spaces)
  qed
next
  case (11 P indent first)
  then show ?case by simp
next
  case (12 P indent first p ps)
  show ?case
  proof (cases "snd p = JUndefined")
    case True
    with "12.IH"(1) [OF True, of rest acc fs] "12.prems" show ?thesis by simp
  next
    case False
    let ?rest = "serMembers P indent False ps @ rest"
    have d: "delimited ?rest"
      using "12.prems" by (simp add: serMembers_delimited)
    have v: "parseFrom (Parsing (ObjectFrame acc (Some (fst p)) # fs) Value)
          (ser P indent (snd p) @ ?rest) =
        parseFrom (Parsing (ObjectFrame (setProp acc (fst p) (jsonOf P (snd p))) None # fs)
          CommaOrClose) ?rest"
      using "12.IH"(2) [OF False _ _ d, of Value "ObjectFrame acc (Some (fst p)) # fs"]
        "12.prems" by simp
    have ps: "parseFrom (Parsing (ObjectFrame (setProp acc (fst p) (jsonOf P (snd p))) None # fs)
          CommaOrClose) ?rest =
        parseFrom (Parsing (ObjectFrame
          (jsonOfMembers P (setProp acc (fst p) (jsonOf P (snd p))) ps) None # fs)
          CommaOrClose) rest"
      using "12.IH"(3) [OF False, of rest "setProp acc (fst p) (jsonOf P (snd p))" fs]
        "12.prems" by simp
    show ?thesis
    proof (cases first)
      case True
      with False "12.prems" v ps show ?thesis
        by (simp add: parseFrom_punctuation parseFrom_newline parseFrom_blank parseFrom_spaces
            parseFrom_string)
    next
      case f: False
      with False "12.prems" v ps show ?thesis
        by (simp add: parseFrom_punctuation parseFrom_newline parseFrom_blank parseFrom_spaces
            parseFrom_string)
    qed
  qed
qed

theorem JSON_parse_ser: "integersOnly v \<Longrightarrow> JSON_parse (ser P [] v) = Some (jsonOf P v)"
  using parse_ser(1) [of v Value "[]" "[]" "[]" P]
  by (simp add: JSON_parse_def delimited_simps parseFrom_Nil)

end
